theory Spec2Isabelle
  imports Complex_Main "HOL-Library.Multiset"
begin

section \<open>JavaScript values used by the services\<close>

text \<open>
  A JavaScript \<open>number\<close>. \<open>Num r\<close> is a finite number of value \<open>r\<close>; \<open>NaN\<close> and the two
  infinities are kept apart, because the code compares and tests them: \<open>0 / 0\<close> is \<open>NaN\<close>,
  \<open>x / 0\<close> is \<open>Infinity\<close> for \<open>x > 0\<close> and \<open>-Infinity\<close> for \<open>x < 0\<close>. The two zeros are
  not told apart. \<open>js_div\<close> keeps a quotient as the exact real; the arithmetic of the score
  prediction and of the recommendations rounds every result to a double (\<open>to_double\<close>
  below).
\<close>

datatype jsnum = Num real | NaN | PosInf | NegInf

definition js_div :: "real \<Rightarrow> real \<Rightarrow> jsnum" where
  "js_div a b =
     (if b = 0 then (if a = 0 then NaN else if 0 < a then PosInf else NegInf)
      else Num (a / b))"

text \<open>\<open>a < b\<close> on numbers: every comparison with \<open>NaN\<close> is false.\<close>

fun js_lt :: "jsnum \<Rightarrow> jsnum \<Rightarrow> bool" where
  "js_lt (Num a) (Num b) = (a < b)"
| "js_lt NaN _ = False"
| "js_lt _ NaN = False"
| "js_lt NegInf NegInf = False"
| "js_lt NegInf _ = True"
| "js_lt _ NegInf = False"
| "js_lt PosInf _ = False"
| "js_lt _ PosInf = True"

text \<open>
  \<open>!v\<close> for the value of a property read: \<open>undefined\<close> (an absent key, \<open>None\<close>), \<open>0\<close> and
  \<open>NaN\<close> are falsy, every other number is truthy.
\<close>

fun js_not :: "jsnum option \<Rightarrow> bool" where
  "js_not None = True"
| "js_not (Some (Num r)) = (r = 0)"
| "js_not (Some NaN) = True"
| "js_not (Some PosInf) = False"
| "js_not (Some NegInf) = False"

text \<open>\<open>a < v\<close> where \<open>v\<close> is a property read: \<open>undefined\<close> converts to \<open>NaN\<close>.\<close>

fun js_lt_prop :: "jsnum \<Rightarrow> jsnum option \<Rightarrow> bool" where
  "js_lt_prop a None = False"
| "js_lt_prop a (Some b) = js_lt a b"

text \<open>\<open>Math.round\<close>: the nearest integer, a tie going up.\<close>

definition Math_round :: "real \<Rightarrow> int" where
  "Math_round x = \<lfloor>x + 1 / 2\<rfloor>"

text \<open>
  IEEE 754 binary64, round to nearest, ties to even. A finite double is \<open>m * 2^e\<close> with an
  integer \<open>m\<close> below \<open>2^53\<close> in magnitude and \<open>-1074 \<le> e \<le> 971\<close>. \<open>round_even\<close> is the
  nearest integer, a tie going to the even one.
\<close>

definition round_even :: "real \<Rightarrow> int" where
  "round_even y =
     (let f = \<lfloor>y\<rfloor>; d = y - of_int f
      in if d < 1 / 2 then f else if 1 / 2 < d then f + 1 else if even f then f else f + 1)"

text \<open>
  The exponent \<open>e\<close> of the binade of a positive number \<open>a\<close>: the largest \<open>e\<close> of the range
  with \<open>2^(e + 52) \<le> a\<close>, searched from the top; \<open>-1074\<close> for the numbers below (the first
  normal binade and the subnormal numbers share it). \<open>exponent_from n\<close> tries the
  exponents \<open>n - 1074\<close> down to \<open>-1073\<close>.
\<close>

fun exponent_from :: "nat \<Rightarrow> real \<Rightarrow> int" where
  "exponent_from 0 a = - 1074"
| "exponent_from (Suc n) a =
     (if 2 powi (int (Suc n) - 1022) \<le> a then int (Suc n) - 1074 else exponent_from n a)"

definition double_exponent :: "real \<Rightarrow> int" where
  "double_exponent a = exponent_from 2045 a"

text \<open>
  The double nearest to a real: the magnitude is scaled into its binade, rounded to an
  integer and scaled back; a result of \<open>2^1024\<close> or more is an infinity.
\<close>

definition to_double :: "real \<Rightarrow> jsnum" where
  "to_double x =
     (if x = 0 then Num 0
      else
        (let e = double_exponent \<bar>x\<bar>;
             v = of_int (round_even (\<bar>x\<bar> / 2 powi e)) * 2 powi e
         in if 2 powi 1024 \<le> v then (if 0 < x then PosInf else NegInf)
            else Num (sgn x * v)))"

text \<open>
  The number a value of the model stands for: \<open>Num r\<close> is read as the double nearest to
  \<open>r\<close>.
\<close>

fun js_number :: "jsnum \<Rightarrow> jsnum" where
  "js_number (Num r) = to_double r"
| "js_number NaN = NaN"
| "js_number PosInf = PosInf"
| "js_number NegInf = NegInf"


fun js_times :: "jsnum \<Rightarrow> jsnum \<Rightarrow> jsnum" where
  "js_times (Num a) (Num b) = to_double (a * b)"
| "js_times NaN _ = NaN"
| "js_times _ NaN = NaN"
| "js_times PosInf (Num b) = (if b = 0 then NaN else if 0 < b then PosInf else NegInf)"
| "js_times NegInf (Num b) = (if b = 0 then NaN else if 0 < b then NegInf else PosInf)"
| "js_times (Num a) PosInf = (if a = 0 then NaN else if 0 < a then PosInf else NegInf)"
| "js_times (Num a) NegInf = (if a = 0 then NaN else if 0 < a then NegInf else PosInf)"
| "js_times PosInf PosInf = PosInf"
| "js_times PosInf NegInf = NegInf"
| "js_times NegInf PosInf = NegInf"
| "js_times NegInf NegInf = PosInf"


text \<open>\<open>Math.round\<close> on numbers.\<close>

fun js_Math_round :: "jsnum \<Rightarrow> jsnum" where
  "js_Math_round (Num x) = Num (of_int (Math_round x))"
| "js_Math_round NaN = NaN"
| "js_Math_round PosInf = PosInf"
| "js_Math_round NegInf = NegInf"

text \<open>
  An object used as a dictionary, \<open>Record<K, V>\<close>. \<open>Object.entries\<close> lists the string keys
  in the order of their first insertion, so the object is an association list: reading a
  key gives \<open>undefined\<close> (\<open>None\<close>) when it is absent, writing replaces the value in place or
  appends a new entry.
\<close>

type_synonym ('k, 'v) js_object = "('k \<times> 'v) list"

fun js_get :: "('k, 'v) js_object \<Rightarrow> 'k \<Rightarrow> 'v option" where
  "js_get [] k = None"
| "js_get ((k', v) # m) k = (if k' = k then Some v else js_get m k)"

fun js_set :: "('k, 'v) js_object \<Rightarrow> 'k \<Rightarrow> 'v \<Rightarrow> ('k, 'v) js_object" where
  "js_set [] k v = [(k, v)]"
| "js_set ((k', v') # m) k v = (if k' = k then (k, v) # m else (k', v') # js_set m k v)"

text \<open>Decimal text of an integer, every digit printed.\<close>

definition digit_char :: "nat \<Rightarrow> char" where
  "digit_char d = ''0123456789'' ! d"

fun show_nat :: "nat \<Rightarrow> string" where
  "show_nat n = (if n < 10 then [digit_char n] else show_nat (n div 10) @ [digit_char (n mod 10)])"

declare show_nat.simps [simp del]

definition show_int :: "int \<Rightarrow> string" where
  "show_int i = (if i < 0 then CHR ''-'' # show_nat (nat (- i)) else show_nat (nat i))"

text \<open>
  The text of a number inside a template literal. An integer below \<open>10^21\<close> in magnitude is
  printed with all its digits; the text of every other finite number (a fraction, an
  exponent form) is a parameter \<open>other_text\<close> of the model.
\<close>

fun number_text :: "(real \<Rightarrow> string) \<Rightarrow> jsnum \<Rightarrow> string" where
  "number_text other_text (Num x) =
     (if x = of_int \<lfloor>x\<rfloor> \<and> \<bar>x\<bar> < 10 ^ 21 then show_int \<lfloor>x\<rfloor> else other_text x)"
| "number_text other_text NaN = ''NaN''"
| "number_text other_text PosInf = ''Infinity''"
| "number_text other_text NegInf = ''-Infinity''"


section \<open>AIService: types\<close>

datatype QuestionCategory =
  Algebra | Geometry | Trigonometry | DataAnalysis
  | ReadingComprehension | Vocabulary | Grammar | EssayWriting

datatype QuestionDifficulty = Easy | Medium | Hard

fun category_name :: "QuestionCategory \<Rightarrow> string" where
  "category_name Algebra = ''Algebra''"
| "category_name Geometry = ''Geometry''"
| "category_name Trigonometry = ''Trigonometry''"
| "category_name DataAnalysis = ''Data Analysis''"
| "category_name ReadingComprehension = ''Reading Comprehension''"
| "category_name Vocabulary = ''Vocabulary''"
| "category_name Grammar = ''Grammar''"
| "category_name EssayWriting = ''Essay Writing''"

fun difficulty_name :: "QuestionDifficulty \<Rightarrow> string" where
  "difficulty_name Easy = ''Easy''"
| "difficulty_name Medium = ''Medium''"
| "difficulty_name Hard = ''Hard''"

text \<open>
  \<open>UserPerformance\<close>. The two counts are natural numbers: \<open>finishQuiz\<close> fills them with a
  tally and with \<open>questions.length\<close>.
\<close>

record UserPerformance =
  correctAnswers :: nat
  totalQuestions :: nat
  timeSpent :: real
  category :: QuestionCategory
  difficulty :: QuestionDifficulty
  incorrectQuestionIds :: "string list"

record StudyRecommendation =
  rec_category :: QuestionCategory
  reason :: string
  recommendedResources :: "string list"
  recommendedQuestions :: "string list"



section \<open>AIService: performance analysis, recommendations, score prediction\<close>

text \<open>
  The body of the \<open>forEach\<close> of \<open>analyzePerformance\<close>:
  \<^verbatim>\<open>
  const successRate = perf.correctAnswers / perf.totalQuestions;
  if (!performanceByCategory[perf.category] || successRate < performanceByCategory[perf.category]) {
    performanceByCategory[perf.category] = successRate;
  }
  \<close>
\<close>

definition analyze_step ::
  "(QuestionCategory, jsnum) js_object \<Rightarrow> UserPerformance \<Rightarrow> (QuestionCategory, jsnum) js_object"
where
  "analyze_step performanceByCategory perf =
     (let successRate = js_div (real (correctAnswers perf)) (real (totalQuestions perf)) in
      if js_not (js_get performanceByCategory (category perf))
         \<or> js_lt_prop successRate (js_get performanceByCategory (category perf))
      then js_set performanceByCategory (category perf) successRate
      else performanceByCategory)"

definition analyzePerformance :: "UserPerformance list \<Rightarrow> (QuestionCategory, jsnum) js_object" where
  "analyzePerformance performances = foldl analyze_step [] performances"

definition getResourcesForCategory :: "QuestionCategory \<Rightarrow> string list" where
  "getResourcesForCategory c =
     [''Resource 1 for '' @ category_name c,
      ''Resource 2 for '' @ category_name c,
      ''Resource 3 for '' @ category_name c]"

definition getMockQuestionIdsForCategory :: "QuestionCategory \<Rightarrow> string list" where
  "getMockQuestionIdsForCategory c = [''q1001'', ''q1002'', ''q1003'', ''q1004'', ''q1005'']"

text \<open>
  The body of the \<open>forEach\<close> of \<open>generateRecommendations\<close>, over \<open>Object.entries(weakAreas)\<close>:
  an entry whose number is below the double \<open>0.7\<close> pushes one recommendation, in the order
  of the entries; the reason holds the text of \<open>Math.round(score * 100)\<close>.
\<close>

definition recommend_step ::
  "(real \<Rightarrow> string) \<Rightarrow> StudyRecommendation list \<Rightarrow> QuestionCategory \<times> jsnum
     \<Rightarrow> StudyRecommendation list"
where
  "recommend_step other_text recommendations entry =
     (case entry of (c, entry_value) \<Rightarrow>
        (let score = js_number entry_value in
         if js_lt score (to_double (7 / 10))
         then recommendations @
           [\<lparr>rec_category = c,
             reason = ''Your success rate of ''
                      @ number_text other_text (js_Math_round (js_times score (Num 100)))
                      @ ''% indicates room for improvement'',
             recommendedResources = getResourcesForCategory c,
             recommendedQuestions = getMockQuestionIdsForCategory c\<rparr>]
         else recommendations))"

definition generateRecommendations ::
  "(real \<Rightarrow> string) \<Rightarrow> (QuestionCategory, jsnum) js_object \<Rightarrow> StudyRecommendation list"
where
  "generateRecommendations other_text weakAreas = foldl (recommend_step other_text) [] weakAreas"






section \<open>AIService: question generation with its fallback\<close>

record ApiKeys =
  openai :: string
  search :: string
  searchEngineId :: string

definition areApiKeysConfigured :: "ApiKeys \<Rightarrow> bool" where
  "areApiKeysConfigured keys = (openai keys \<noteq> [] \<and> search keys \<noteq> [] \<and> searchEngineId keys \<noteq> [])"

text \<open>What a \<open>throw\<close> carries; \<open>Error\<close> has the message of \<open>new Error(message)\<close>.\<close>

datatype js_error = Error string | AxiosError | SyntaxError | TypeError

text \<open>The question type of AIService (its fields carry the prefix \<open>aiq\<close>).\<close>

record AIQuestion =
  aiq_id :: string
  aiq_question :: string
  aiq_options :: "string list"
  aiq_correctAnswer :: int
  aiq_explanation :: string
  aiq_category :: QuestionCategory
  aiq_difficulty :: QuestionDifficulty
  aiq_createdAt :: int
  aiq_isGenerated :: bool
  aiq_source :: "string option"

text \<open>
  One element \<open>q\<close> of the \<open>questions\<close> array of a parsed completion. The code reads
  \<open>q.question\<close>, \<open>q.options\<close>, \<open>q.correctAnswerIndex\<close> and \<open>q.explanation\<close> and checks none
  of them, so the index is any integer and the options any list.
\<close>

record raw_question =
  raw_question :: string
  raw_options :: "string list"
  raw_correctAnswerIndex :: int
  raw_explanation :: string

text \<open>
  What the remote completion call of \<open>generateAIQuestions\<close> comes to:
  \<^item> \<open>RequestFailed\<close>: \<open>axios.post\<close> rejects (no transport, an error status);
  \<^item> \<open>NoContent\<close>: \<open>response.data.choices[0].message.content\<close> cannot be read;
  \<^item> \<open>InvalidJSON\<close>: \<open>JSON.parse\<close> throws;
  \<^item> \<open>NoQuestionsArray\<close>: the parsed value has no \<open>questions\<close> array of objects to map over;
  \<^item> \<open>QuestionsData\<close>: the array that \<open>.questions\<close> holds.
\<close>

datatype completion =
  RequestFailed | NoContent | InvalidJSON | NoQuestionsArray | QuestionsData "raw_question list"

text \<open>
  The surroundings of one call of \<open>generateAIQuestions\<close>: the keys that \<open>getApiKeys\<close>
  returns, the outcome of the completion call, and the clock: \<open>now_id i\<close> is the value of
  \<open>Date.now()\<close> and \<open>now_created i\<close> the time of \<open>new Date()\<close> when the question of index
  \<open>i\<close> is built. The trends of \<open>searchForContentInsights\<close> (which absorbs its own errors)
  enter the prompt only.
\<close>

record GenEnv =
  apiKeys :: ApiKeys
  completion :: completion
  now_id :: "nat \<Rightarrow> int"
  now_created :: "nat \<Rightarrow> int"

definition getMockQuestionsForCategory ::
  "GenEnv \<Rightarrow> QuestionCategory \<Rightarrow> QuestionDifficulty \<Rightarrow> nat \<Rightarrow> AIQuestion list"
where
  "getMockQuestionsForCategory env c d cnt =
     map (\<lambda>i.
        \<lparr>aiq_id = ''gen_'' @ show_int (now_id env i) @ ''_'' @ show_nat i,
         aiq_question = ''This is a sample '' @ category_name c @ '' question of ''
                        @ difficulty_name d @ '' difficulty.'',
         aiq_options = [''Option A'', ''Option B'', ''Option C'', ''Option D''],
         aiq_correctAnswer = 0,
         aiq_explanation = ''This is an explanation for the correct answer.'',
         aiq_category = c,
         aiq_difficulty = d,
         aiq_createdAt = now_created env i,
         aiq_isGenerated = True,
         aiq_source = Some ''GPT-4o (Mock)''\<rparr>)
       [0..<cnt]"

text \<open>The \<open>try\<close> block of \<open>generateAIQuestions\<close>: \<open>Inl\<close> is what it throws.\<close>

definition generateAIQuestions_try ::
  "GenEnv \<Rightarrow> QuestionCategory \<Rightarrow> QuestionDifficulty \<Rightarrow> nat \<Rightarrow> js_error + AIQuestion list"
where
  "generateAIQuestions_try env c d cnt =
     (if \<not> areApiKeysConfigured (apiKeys env) then Inl (Error ''API keys not configured'')
      else case completion env of
        RequestFailed \<Rightarrow> Inl AxiosError
      | NoContent \<Rightarrow> Inl TypeError
      | InvalidJSON \<Rightarrow> Inl SyntaxError
      | NoQuestionsArray \<Rightarrow> Inl TypeError
      | QuestionsData questionsData \<Rightarrow>
          Inr (map (\<lambda>(index, q).
                 \<lparr>aiq_id = ''ai_'' @ show_int (now_id env index) @ ''_'' @ show_nat index,
                  aiq_question = raw_question q,
                  aiq_options = raw_options q,
                  aiq_correctAnswer = raw_correctAnswerIndex q,
                  aiq_explanation = raw_explanation q,
                  aiq_category = c,
                  aiq_difficulty = d,
                  aiq_createdAt = now_created env index,
                  aiq_isGenerated = True,
                  aiq_source = Some ''GPT-4''\<rparr>)
               (enumerate 0 questionsData)))"

text \<open>
  \<open>generateAIQuestions\<close>: the \<open>catch\<close> block logs and returns the template questions. The
  result is again a sum, so that "no error reaches the caller" is a statement about it.
\<close>

definition generateAIQuestions ::
  "GenEnv \<Rightarrow> QuestionCategory \<Rightarrow> QuestionDifficulty \<Rightarrow> nat \<Rightarrow> js_error + AIQuestion list"
where
  "generateAIQuestions env c d cnt =
     (case generateAIQuestions_try env c d cnt of
        Inl error \<Rightarrow> Inr (getMockQuestionsForCategory env c d cnt)
      | Inr questions \<Rightarrow> Inr questions)"


section \<open>QuestionService: the catalog and the assembly of a quiz\<close>

text \<open>
  The question type of QuestionService (its fields carry the prefix \<open>q\<close>). Characters of
  the catalog texts outside ASCII are transliterated; no function reads the texts.
\<close>

record Question =
  q_id :: string
  q_text :: string
  q_options :: "string list"
  q_correctAnswer :: int
  q_explanation :: string
  q_category :: QuestionCategory
  q_difficulty :: QuestionDifficulty
  q_lastUpdated :: string
  q_isAIGenerated :: "bool option"

text \<open>
  \<open>QuizConfig\<close>. The count is a natural number (the screens ask for 5 to 20 questions);
  an absent \<open>categories\<close>, \<open>difficulty\<close> or \<open>useAI\<close> is \<open>None\<close>.
\<close>

record QuizConfig =
  cfg_categories :: "QuestionCategory list option"
  cfg_difficulty :: "QuestionDifficulty option"
  cfg_count :: nat
  cfg_useAI :: "bool option"

definition mockQuestions :: "Question list" where
  \<open>mockQuestions =
    [\<lparr>q_id = ''math001'',
      q_text = ''If 3x + 7 = 22, what is the value of x?'',
      q_options = [''3'', ''4'', ''5'', ''6''],
      q_correctAnswer = 2,
      q_explanation = ''To solve for x, subtract 7 from both sides: 3x = 15. Then divide both sides by 3: x = 5.'',
      q_category = Algebra,
      q_difficulty = Easy,
      q_lastUpdated = ''2024-01-15T12:00:00Z'',
      q_isAIGenerated = None\<rparr>,
     \<lparr>q_id = ''math002'',
      q_text = ''What is the solution to the equation 2x^2 - 5x - 3 = 0?'',
      q_options = [''x = -0.5 or x = 3'', ''x = 0.5 or x = 3'', ''x = -0.5 or x = -3'', ''x = 0.5 or x = -3''],
      q_correctAnswer = 0,
      q_explanation = ''Using the quadratic formula, x = (-b +- sqrt(b^2 - 4ac))/(2a), where a=2, b=-5, c=-3. This gives x = (-(-5) +- sqrt(25 + 24))/(2(2)) = (5 +- sqrt 49)/4 = (5 +- 7)/4, which simplifies to x = -0.5 or x = 3.'',
      q_category = Algebra,
      q_difficulty = Medium,
      q_lastUpdated = ''2024-02-10T09:30:00Z'',
      q_isAIGenerated = None\<rparr>,
     \<lparr>q_id = ''math003'',
      q_text = ''In a right triangle, one angle is 90 deg and another is 35 deg. What is the measure of the third angle?'',
      q_options = [''45 deg'', ''55 deg'', ''65 deg'', ''75 deg''],
      q_correctAnswer = 1,
      q_explanation = ''The sum of angles in a triangle is 180 deg. If one angle is 90 deg and another is 35 deg, then the third angle is 180 deg - 90 deg - 35 deg = 55 deg.'',
      q_category = Geometry,
      q_difficulty = Easy,
      q_lastUpdated = ''2024-01-20T14:15:00Z'',
      q_isAIGenerated = None\<rparr>,
     \<lparr>q_id = ''verbal001'',
      q_text = ''Based on the passage, the author's primary purpose is to:'',
      q_options = [''criticize a traditional approach'', ''advocate for a new perspective'',
                   ''explain a complex phenomenon'', ''compare competing theories''],
      q_correctAnswer = 2,
      q_explanation = ''The author spends most of the passage explaining the details of the phenomenon rather than arguing for a particular position or comparing different viewpoints.'',
      q_category = ReadingComprehension,
      q_difficulty = Medium,
      q_lastUpdated = ''2024-02-05T10:45:00Z'',
      q_isAIGenerated = None\<rparr>,
     \<lparr>q_id = ''verbal002'',
      q_text = ''Choose the option that best corrects the underlined portion of the sentence: The team of scientists, led by Dr. Chen, have made a significant breakthrough.'',
      q_options = [''have made'', ''has made'', ''are making'', ''is making''],
      q_correctAnswer = 1,
      q_explanation = ''The subject of the sentence is "team" (singular), not "scientists," so it requires a singular verb form: "has made."'',
      q_category = Grammar,
      q_difficulty = Easy,
      q_lastUpdated = ''2024-01-25T08:20:00Z'',
      q_isAIGenerated = None\<rparr>]\<close>

text \<open>
  \<open>shuffleArray\<close>: the loop runs \<open>i\<close> from \<open>length - 1\<close> down to \<open>1\<close> and swaps the
  elements at \<open>i\<close> and \<open>j = Math.floor(Math.random() * (i + 1))\<close>. The random source is a
  function: \<open>random i\<close> is the number drawn in the round of index \<open>i\<close> (a number of
  \<open>[0, 1)\<close>, by the contract of \<open>Math.random\<close>).
\<close>

fun shuffle_loop :: "(nat \<Rightarrow> real) \<Rightarrow> nat \<Rightarrow> 'a list \<Rightarrow> 'a list" where
  "shuffle_loop random 0 shuffled = shuffled"
| "shuffle_loop random (Suc k) shuffled =
     (let i = Suc k;
          j = nat \<lfloor>random i * real (i + 1)\<rfloor>
      in shuffle_loop random k (shuffled[i := shuffled ! j, j := shuffled ! i]))"

definition shuffleArray :: "(nat \<Rightarrow> real) \<Rightarrow> 'a list \<Rightarrow> 'a list" where
  "shuffleArray random array = shuffle_loop random (length array - 1) array"

text \<open>
  The surroundings of one call of \<open>getQuestions\<close>: the random numbers of its two
  shuffles, the surroundings of its \<open>k\<close>-th call of \<open>generateAIQuestions\<close>, and the text of
  \<open>new Date().toISOString()\<close> when question \<open>i\<close> of that call is converted.
\<close>

record AssemblyEnv =
  random1 :: "nat \<Rightarrow> real"
  random2 :: "nat \<Rightarrow> real"
  generation :: "nat \<Rightarrow> GenEnv"
  now_iso :: "nat \<Rightarrow> nat \<Rightarrow> string"

text \<open>\<open>config.categories && config.categories.length > 0\<close>\<close>

definition has_categories :: "QuizConfig \<Rightarrow> bool" where
  "has_categories config = (case cfg_categories config of None \<Rightarrow> False | Some cs \<Rightarrow> cs \<noteq> [])"

definition requested_categories :: "QuizConfig \<Rightarrow> QuestionCategory list" where
  "requested_categories config = (case cfg_categories config of None \<Rightarrow> [] | Some cs \<Rightarrow> cs)"

text \<open>The two filters of \<open>getQuestions\<close> over the catalog, one after the other.\<close>

definition filteredQuestions :: "QuizConfig \<Rightarrow> Question list" where
  "filteredQuestions config =
     (let byCategory =
            (if has_categories config
             then filter (\<lambda>q. q_category q \<in> set (requested_categories config)) mockQuestions
             else mockQuestions)
      in case cfg_difficulty config of
           None \<Rightarrow> byCategory
         | Some d \<Rightarrow> filter (\<lambda>q. q_difficulty q = d) byCategory)"

text \<open>The filter of \<open>getQuestions\<close> over the stored generated questions.\<close>

definition matchingAIQuestions :: "Question list \<Rightarrow> QuizConfig \<Rightarrow> Question list" where
  "matchingAIQuestions aiGeneratedQuestions config =
     filter (\<lambda>q.
        (if has_categories config then q_category q \<in> set (requested_categories config) else True)
        \<and> (case cfg_difficulty config of None \<Rightarrow> True | Some d \<Rightarrow> q_difficulty q = d))
       aiGeneratedQuestions"

text \<open>The conversion of the questions of the \<open>k\<close>-th generation call.\<close>

definition convertedQuestions :: "AssemblyEnv \<Rightarrow> nat \<Rightarrow> AIQuestion list \<Rightarrow> Question list" where
  "convertedQuestions env k aiQuestions =
     map (\<lambda>(i, q).
        \<lparr>q_id = aiq_id q,
         q_text = aiq_question q,
         q_options = aiq_options q,
         q_correctAnswer = aiq_correctAnswer q,
         q_explanation = aiq_explanation q,
         q_category = aiq_category q,
         q_difficulty = aiq_difficulty q,
         q_lastUpdated = now_iso env k i,
         q_isAIGenerated = Some True\<rparr>)
       (enumerate 0 aiQuestions)"

text \<open>
  The \<open>for (const category of ...)\<close> loop inside the \<open>try\<close> of \<open>getQuestions\<close>, on the pair
  of the stored generated questions and \<open>allQuestions\<close>; \<open>k\<close> counts the calls. A throw
  leaves the loop with what both hold by then (the \<open>catch\<close> only logs).
\<close>

fun generate_loop ::
  "AssemblyEnv \<Rightarrow> QuestionDifficulty \<Rightarrow> nat \<Rightarrow> nat \<Rightarrow> QuestionCategory list
     \<Rightarrow> Question list \<times> Question list \<Rightarrow> Question list \<times> Question list"
where
  "generate_loop env d n k [] st = st"
| "generate_loop env d n k (c # cs) (aiGeneratedQuestions, allQuestions) =
     (case generateAIQuestions (generation env k) c d n of
        Inl error \<Rightarrow> (aiGeneratedQuestions, allQuestions)
      | Inr aiQuestions \<Rightarrow>
          generate_loop env d n (Suc k) cs
            (aiGeneratedQuestions @ convertedQuestions env k aiQuestions,
             allQuestions @ convertedQuestions env k aiQuestions))"

text \<open>
  \<open>getQuestions\<close>, on the module variable \<open>aiGeneratedQuestions\<close>: the result is the new
  value of that variable and the list the promise resolves to.
\<close>

definition getQuestions ::
  "AssemblyEnv \<Rightarrow> Question list \<Rightarrow> QuizConfig \<Rightarrow> Question list \<times> Question list"
where
  "getQuestions env aiGeneratedQuestions config =
     (let allQuestions =
            shuffleArray (random1 env)
              (filteredQuestions config @ matchingAIQuestions aiGeneratedQuestions config)
      in if cfg_useAI config = Some True \<and> length allQuestions < cfg_count config
         then
           (let neededCount = cfg_count config - length allQuestions;
                d = (case cfg_difficulty config of None \<Rightarrow> Medium | Some d \<Rightarrow> d);
                generated =
                  (if has_categories config
                   then generate_loop env d
                          (nat \<lceil>real neededCount / real (length (requested_categories config))\<rceil>)
                          0 (requested_categories config) (aiGeneratedQuestions, allQuestions)
                   else generate_loop env d (nat \<lceil>real neededCount / 4\<rceil>)
                          0 [Algebra, ReadingComprehension, Grammar, Geometry]
                          (aiGeneratedQuestions, allQuestions))
            in (fst generated, take (cfg_count config) (shuffleArray (random2 env) (snd generated))))
         else (aiGeneratedQuestions, take (cfg_count config) allQuestions))"



section \<open>QuizScreen: the component state and its handlers\<close>

text \<open>The route parameters of the Quiz screen that the component reads.\<close>

record QuizParams =
  quizType :: string
  p_category :: QuestionCategory
  p_difficulty :: QuestionDifficulty
  questionCount :: nat
  p_useAI :: "bool option"

text \<open>The \<open>results\<close> state: the three tallies.\<close>

record Tally =
  correct :: nat
  incorrect :: nat
  skipped :: nat

text \<open>
  The state of the component, one field for each \<open>useState\<close> that the handlers read or
  write. Clock values are the milliseconds of \<open>Date.now()\<close>.
\<close>

record QuizState =
  params :: QuizParams
  questions :: "Question list"
  currentQuestionIndex :: nat
  selectedAnswer :: "nat option"
  isAnswerSubmitted :: bool
  isLoading :: bool
  quizStartTime :: int
  questionStartTime :: int
  timePerQuestion :: "real list"
  results :: Tally

text \<open>The parameters that \<open>finishQuiz\<close> passes to the Results screen.\<close>

record QuizResults =
  res_correct :: nat
  res_incorrect :: nat
  res_skipped :: nat
  res_totalQuestions :: nat
  res_timeSpent :: real
  averageTimePerQuestion :: jsnum

record ResultsParams =
  res_results :: QuizResults
  performance :: UserPerformance
  res_quizType :: string

datatype section_name = Math | Verbal

text \<open>
  What a handler does besides setting state: \<open>finishQuiz\<close> calls \<open>updateProgress\<close> and
  navigates to Results.
\<close>

record Finish =
  updateProgress :: "section_name \<times> nat \<times> nat"
  navigate_Results :: ResultsParams

text \<open>
  \<open>finishQuiz\<close>. It is a closure of one render: \<open>results\<close>, \<open>questions\<close>, \<open>timePerQuestion\<close>
  and \<open>quizStartTime\<close> are the values of the state \<open>s\<close> of the render that created the
  handler which calls it; \<open>now\<close> is its \<open>Date.now()\<close>.
\<close>

definition finishQuiz :: "int \<Rightarrow> QuizState \<Rightarrow> Finish" where
  "finishQuiz now s =
     (let totalTime = real_of_int (now - quizStartTime s) / 1000;
          r = results s;
          performanceData =
            \<lparr>correctAnswers = correct r,
             totalQuestions = length (questions s),
             timeSpent = totalTime,
             category = p_category (params s),
             difficulty = p_difficulty (params s),
             incorrectQuestionIds =
               map (\<lambda>(index, q). q_id q)
                 (filter (\<lambda>(index, q).
                     if \<not> index < correct r + incorrect r + skipped r then False
                     else \<not> (if index < correct r then True else False))
                   (enumerate 0 (questions s)))\<rparr>;
          isMathCategory =
            (p_category (params s) = Algebra \<or> p_category (params s) = Geometry
             \<or> p_category (params s) = Trigonometry \<or> p_category (params s) = DataAnalysis)
      in \<lparr>updateProgress =
            (if isMathCategory then Math else Verbal, correct r, length (questions s)),
          navigate_Results =
            \<lparr>res_results =
               \<lparr>res_correct = correct r,
                res_incorrect = incorrect r,
                res_skipped = skipped r,
                res_totalQuestions = length (questions s),
                res_timeSpent = totalTime,
                averageTimePerQuestion =
                  js_div (foldl (\<lambda>a b. a + b) 0 (timePerQuestion s))
                         (real (length (timePerQuestion s)))\<rparr>,
             performance = performanceData,
             res_quizType = quizType (params s)\<rparr>\<rparr>)"

definition handleSelectAnswer :: "nat \<Rightarrow> QuizState \<Rightarrow> QuizState" where
  "handleSelectAnswer index s =
     (if \<not> isAnswerSubmitted s then s\<lparr>selectedAnswer := Some index\<rparr> else s)"

text \<open>
  \<open>handleSubmitAnswer\<close>. Without a selection it shows an alert and returns; reading
  \<open>correctAnswer\<close> of an absent \<open>questions[currentQuestionIndex]\<close> throws. It has no test of
  \<open>isAnswerSubmitted\<close>.
\<close>

definition handleSubmitAnswer :: "QuizState \<Rightarrow> js_error + QuizState" where
  "handleSubmitAnswer s =
     (case selectedAnswer s of
        None \<Rightarrow> Inr s
      | Some selected \<Rightarrow>
          if \<not> currentQuestionIndex s < length (questions s) then Inl TypeError
          else
            (let currentQuestion = questions s ! currentQuestionIndex s;
                 isCorrect = (int selected = q_correctAnswer currentQuestion);
                 prev = results s
             in Inr (s\<lparr>results :=
                        prev\<lparr>correct := (if isCorrect then correct prev + 1 else correct prev),
                             incorrect := (if \<not> isCorrect then incorrect prev + 1 else incorrect prev)\<rparr>,
                      isAnswerSubmitted := True\<rparr>)))"

text \<open>
  \<open>handleNextQuestion\<close>: the new state and, on the last question, what \<open>finishQuiz\<close> does.
  The test \<open>currentQuestionIndex < questions.length - 1\<close> is over the integers.
\<close>

definition handleNextQuestion :: "int \<Rightarrow> QuizState \<Rightarrow> QuizState \<times> Finish option" where
  "handleNextQuestion now s =
     (if int (currentQuestionIndex s) < int (length (questions s)) - 1
      then (s\<lparr>currentQuestionIndex := currentQuestionIndex s + 1\<rparr>, None)
      else (s, Some (finishQuiz now s)))"

text \<open>
  \<open>handleSkipQuestion\<close>: \<open>now\<close> is the clock read by the handler, \<open>now'\<close> the one read by
  \<open>finishQuiz\<close>. The two state setters are queued for the next render, while \<open>finishQuiz\<close>
  is called at once and is the closure of the current render: it reads the state \<open>s\<close> as it
  was before the skip was counted.
\<close>

definition handleSkipQuestion :: "int \<Rightarrow> int \<Rightarrow> QuizState \<Rightarrow> QuizState \<times> Finish option" where
  "handleSkipQuestion now now' s =
     (let questionTime = real_of_int (now - questionStartTime s) / 1000;
          s1 = s\<lparr>results := (results s)\<lparr>skipped := skipped (results s) + 1\<rparr>,
                 timePerQuestion := timePerQuestion s @ [questionTime]\<rparr>
      in if int (currentQuestionIndex s) < int (length (questions s)) - 1
         then (s1\<lparr>currentQuestionIndex := currentQuestionIndex s + 1\<rparr>, None)
         else (s1, Some (finishQuiz now' s)))"

text \<open>
  The second \<open>useEffect\<close> (the progress animation apart), run at clock \<open>now\<close> in the render
  of state \<open>s\<close>: it resets the selection and, from the second question on, appends the
  time since \<open>questionStartTime\<close>.
\<close>

definition questionEffect :: "int \<Rightarrow> QuizState \<Rightarrow> QuizState" where
  "questionEffect now s =
     (if \<not> isLoading s
      then
        (let s1 = s\<lparr>selectedAnswer := None, isAnswerSubmitted := False\<rparr>;
             s2 = (if currentQuestionIndex s > 0
                   then s1\<lparr>timePerQuestion :=
                             timePerQuestion s1 @ [real_of_int (now - questionStartTime s) / 1000]\<rparr>
                   else s1)
         in s2\<lparr>questionStartTime := now\<rparr>)
      else s)"

text \<open>
  A render after the state went from \<open>old\<close> to \<open>new\<close>: the effect runs when one of its
  dependencies \<open>currentQuestionIndex\<close>, \<open>questions.length\<close>, \<open>isLoading\<close> has changed.
\<close>

definition rerender :: "int \<Rightarrow> QuizState \<Rightarrow> QuizState \<Rightarrow> QuizState" where
  "rerender now old new =
     (if currentQuestionIndex new \<noteq> currentQuestionIndex old
         \<or> length (questions new) \<noteq> length (questions old)
         \<or> isLoading new \<noteq> isLoading old
      then questionEffect now new else new)"


section \<open>QuizScreen: the screen as the user drives it\<close>

datatype navigation = Results ResultsParams | Back

text \<open>
  The mounted screen: the component state, the calls of \<open>updateProgress\<close> so far, and where
  the navigator has gone (\<open>None\<close>: the quiz is still shown).
\<close>

record Screen =
  state :: QuizState
  progressUpdates :: "(section_name \<times> nat \<times> nat) list"
  navigated :: "navigation option"

text \<open>The initial values of the \<open>useState\<close> calls.\<close>

definition mount :: "QuizParams \<Rightarrow> QuizState" where
  "mount p =
     \<lparr>params = p, questions = [], currentQuestionIndex = 0, selectedAnswer = None,
      isAnswerSubmitted = False, isLoading = True, quizStartTime = 0, questionStartTime = 0,
      timePerQuestion = [],
      results = \<lparr>correct = 0, incorrect = 0, skipped = 0\<rparr>\<rparr>"

text \<open>\<open>loadQuestions\<close> once \<open>getQuestions\<close> has answered, at clock \<open>now\<close>.\<close>

definition loadQuestions :: "Question list \<Rightarrow> int \<Rightarrow> QuizState \<Rightarrow> QuizState" where
  "loadQuestions fetchedQuestions now s =
     s\<lparr>questions := fetchedQuestions, quizStartTime := now, questionStartTime := now,
       isLoading := False\<rparr>"

text \<open>The screen once the questions are loaded and the effect has run (at clock \<open>now'\<close>).\<close>

definition start :: "QuizParams \<Rightarrow> Question list \<Rightarrow> int \<Rightarrow> int \<Rightarrow> Screen" where
  "start p fetchedQuestions now now' =
     \<lparr>state = rerender now' (mount p) (loadQuestions fetchedQuestions now (mount p)),
      progressUpdates = [],
      navigated = None\<rparr>"

text \<open>
  What the user can do. Each event is one control of the rendered screen; the clock values
  are those read while it is handled (by the handler, then by the effect or \<open>finishQuiz\<close>).
  \<open>ConfirmQuit\<close> is the Quit button of the alert behind the close button of the header,
  \<open>PressGoBack\<close> the button of the screen shown when there are no questions.
\<close>

datatype event =
  PressOption nat | PressSubmit | PressNext int | PressSkip int int | ConfirmQuit | PressGoBack

definition apply_handler :: "int \<Rightarrow> Screen \<Rightarrow> QuizState \<times> Finish option \<Rightarrow> Screen" where
  "apply_handler now scr out =
     (case snd out of
        None \<Rightarrow> scr\<lparr>state := rerender now (state scr) (fst out)\<rparr>
      | Some f \<Rightarrow>
          scr\<lparr>state := rerender now (state scr) (fst out),
              progressUpdates := progressUpdates scr @ [updateProgress f],
              navigated := Some (Results (navigate_Results f))\<rparr>)"

text \<open>
  One event on the screen, following the \<open>return\<close> of the component: \<open>None\<close> when the
  control is not rendered or is disabled. The loader has no control; without questions
  only Go Back is shown; otherwise the options of the current question are enabled until
  the answer is submitted, Skip and Submit are shown until then (Submit is disabled
  without a selection) and Next from then on.
\<close>

definition dispatch :: "event \<Rightarrow> Screen \<Rightarrow> Screen option" where
  "dispatch ev scr =
     (let s = state scr in
      if navigated scr \<noteq> None \<or> isLoading s then None
      else if questions s = [] then
        (case ev of PressGoBack \<Rightarrow> Some (scr\<lparr>navigated := Some Back\<rparr>) | _ \<Rightarrow> None)
      else if \<not> currentQuestionIndex s < length (questions s) then None
      else
        (case ev of
           PressOption index \<Rightarrow>
             if index < length (q_options (questions s ! currentQuestionIndex s))
                \<and> \<not> isAnswerSubmitted s
             then Some (scr\<lparr>state := handleSelectAnswer index s\<rparr>) else None
         | PressSubmit \<Rightarrow>
             if \<not> isAnswerSubmitted s \<and> selectedAnswer s \<noteq> None
             then (case handleSubmitAnswer s of
                     Inl error \<Rightarrow> None
                   | Inr s' \<Rightarrow> Some (scr\<lparr>state := s'\<rparr>))
             else None
         | PressNext now \<Rightarrow>
             if isAnswerSubmitted s then Some (apply_handler now scr (handleNextQuestion now s))
             else None
         | PressSkip now now' \<Rightarrow>
             if \<not> isAnswerSubmitted s
             then Some (apply_handler now' scr (handleSkipQuestion now now' s))
             else None
         | ConfirmQuit \<Rightarrow> Some (scr\<lparr>navigated := Some Back\<rparr>)
         | PressGoBack \<Rightarrow> None))"

fun run :: "event list \<Rightarrow> Screen \<Rightarrow> Screen option" where
  "run [] scr = Some scr"
| "run (ev # evs) scr = (case dispatch ev scr of None \<Rightarrow> None | Some scr' \<Rightarrow> run evs scr')"



section \<open>Predicates and example surroundings used in the statements\<close>

definition tally_sum :: "Tally \<Rightarrow> nat" where
  "tally_sum r = correct r + incorrect r + skipped r"

text \<open>
  What holds of the component state as long as the quiz is shown: the index is inside the
  question list, every question before the current one is counted once (and the current
  one when it is submitted), and the time list has one entry per question left behind
  plus one more per skipped question.
\<close>

definition screen_inv :: "QuizState \<Rightarrow> bool" where
  "screen_inv s =
     (\<not> isLoading s
      \<and> (currentQuestionIndex s < length (questions s)
           \<or> (questions s = [] \<and> currentQuestionIndex s = 0))
      \<and> tally_sum (results s) = currentQuestionIndex s + (if isAnswerSubmitted s then 1 else 0)
      \<and> skipped (results s) \<le> currentQuestionIndex s
      \<and> length (timePerQuestion s) = currentQuestionIndex s + skipped (results s))"

text \<open>The results the Results screen was opened with, if it was.\<close>

definition finished_results :: "Screen \<Rightarrow> QuizResults option" where
  "finished_results scr =
     (case navigated scr of Some (Results r) \<Rightarrow> Some (res_results r) | _ \<Rightarrow> None)"

text \<open>The contract of \<open>Math.random\<close>: every number drawn is in \<open>[0, 1)\<close>.\<close>

definition Math_random_contract :: "(nat \<Rightarrow> real) \<Rightarrow> bool" where
  "Math_random_contract random = (\<forall>i. 0 \<le> random i \<and> random i < 1)"

text \<open>The invariant of the data model: the correct answer is an index of the options.\<close>

definition valid_index :: "Question \<Rightarrow> bool" where
  "valid_index q = (0 \<le> q_correctAnswer q \<and> q_correctAnswer q < int (length (q_options q)))"

definition valid_raw :: "raw_question \<Rightarrow> bool" where
  "valid_raw r =
     (0 \<le> raw_correctAnswerIndex r \<and> raw_correctAnswerIndex r < int (length (raw_options r)))"

text \<open>Every question of every parsed completion of the surroundings has a valid index.\<close>

definition responses_valid :: "AssemblyEnv \<Rightarrow> bool" where
  "responses_valid env =
     (\<forall>k raws. completion (generation env k) = QuestionsData raws
        \<longrightarrow> (\<forall>r\<in>set raws. valid_raw r))"

text \<open>The finite rate an object holds for a category (\<open>0\<close> when it holds none).\<close>

definition entry_rate :: "(QuestionCategory, jsnum) js_object \<Rightarrow> QuestionCategory \<Rightarrow> real" where
  "entry_rate m c = (case js_get m c of Some (Num r) \<Rightarrow> r | _ \<Rightarrow> 0)"

text \<open>The success rate of a record with a positive total.\<close>

definition success_rate :: "UserPerformance \<Rightarrow> real" where
  "success_rate p = real (correctAnswers p) / real (totalQuestions p)"

text \<open>
  Example surroundings: no API key is configured (the environment variables are unset and
  nothing is stored), every clock read of a generation call returns \<open>T\<close>, and every random
  number drawn is \<open>0\<close>.
\<close>

definition no_keys :: ApiKeys where
  "no_keys = \<lparr>openai = [], search = [], searchEngineId = []\<rparr>"

definition offline :: "int \<Rightarrow> GenEnv" where
  "offline T =
     \<lparr>apiKeys = no_keys, completion = RequestFailed, now_id = (\<lambda>i. T), now_created = (\<lambda>i. T)\<rparr>"

definition offline_assembly :: "int \<Rightarrow> AssemblyEnv" where
  "offline_assembly T =
     \<lparr>random1 = (\<lambda>i. 0), random2 = (\<lambda>i. 0), generation = (\<lambda>k. offline T),
      now_iso = (\<lambda>k i. ''2024-11-01T00:00:00.000Z'')\<rparr>"

text \<open>
  Example surroundings with keys, in which the completion parses to one question with four
  options and the index \<open>4\<close>.
\<close>

definition online_bad_index :: GenEnv where
  "online_bad_index =
     \<lparr>apiKeys = \<lparr>openai = ''sk-key'', search = ''search-key'', searchEngineId = ''engine''\<rparr>,
      completion = QuestionsData
        [\<lparr>raw_question = ''Solve for x: 2x = 8'',
          raw_options = [''2'', ''3'', ''4'', ''8''],
          raw_correctAnswerIndex = 4,
          raw_explanation = ''Divide both sides by 2.''\<rparr>],
      now_id = (\<lambda>i. 1730000000000),
      now_created = (\<lambda>i. 1730000000000)\<rparr>"

definition online_bad_assembly :: AssemblyEnv where
  "online_bad_assembly =
     \<lparr>random1 = (\<lambda>i. 0), random2 = (\<lambda>i. 0), generation = (\<lambda>k. online_bad_index),
      now_iso = (\<lambda>k i. ''2024-11-01T00:00:00.000Z'')\<rparr>"

text \<open>
  Example surroundings with keys, in which the completion parses to one question with two
  options.
\<close>

definition online_two_options :: GenEnv where
  "online_two_options =
     \<lparr>apiKeys = \<lparr>openai = ''sk-key'', search = ''search-key'', searchEngineId = ''engine''\<rparr>,
      completion = QuestionsData
        [\<lparr>raw_question = ''Is 7 a prime number?'',
          raw_options = [''Yes'', ''No''],
          raw_correctAnswerIndex = 0,
          raw_explanation = ''7 has no divisor other than 1 and 7.''\<rparr>],
      now_id = (\<lambda>i. 1730000000000),
      now_created = (\<lambda>i. 1730000000000)\<rparr>"

text \<open>
  Example surroundings with keys, in which the completion parses to one question with four
  options and the index \<open>2\<close>, and a generated question stored by an earlier call.
\<close>

definition online_valid :: GenEnv where
  "online_valid =
     \<lparr>apiKeys = \<lparr>openai = ''sk-key'', search = ''search-key'', searchEngineId = ''engine''\<rparr>,
      completion = QuestionsData
        [\<lparr>raw_question = ''Solve for x: 2x = 8'',
          raw_options = [''2'', ''3'', ''4'', ''8''],
          raw_correctAnswerIndex = 2,
          raw_explanation = ''Divide both sides by 2.''\<rparr>],
      now_id = (\<lambda>i. 1730000000000),
      now_created = (\<lambda>i. 1730000000000)\<rparr>"

definition online_valid_assembly :: AssemblyEnv where
  "online_valid_assembly =
     \<lparr>random1 = (\<lambda>i. 0), random2 = (\<lambda>i. 0), generation = (\<lambda>k. online_valid),
      now_iso = (\<lambda>k i. ''2024-11-01T00:00:00.000Z'')\<rparr>"

definition stored_generated :: "Question list" where
  "stored_generated =
     [\<lparr>q_id = ''ai_1720000000000_0'',
       q_text = ''Solve for x: 3x - 4 = 17'',
       q_options = [''5'', ''6'', ''7'', ''8''],
       q_correctAnswer = 2,
       q_explanation = ''Add 4 to both sides, then divide by 3.'',
       q_category = Algebra,
       q_difficulty = Hard,
       q_lastUpdated = ''2024-07-03T09:46:40.000Z'',
       q_isAIGenerated = Some True\<rparr>]"

text \<open>The route parameters of an Algebra quiz of medium difficulty.\<close>

definition algebra_quiz :: QuizParams where
  "algebra_quiz =
     \<lparr>quizType = ''practice'', p_category = Algebra, p_difficulty = Medium,
      questionCount = 10, p_useAI = None\<rparr>"



section \<open>AIService: performance analysis\<close>

lemma js_get_js_set: "js_get (js_set m k v) k' = (if k = k' then Some v else js_get m k')"
  by (induction m) auto

lemma analyzePerformance_snoc:
  "analyzePerformance (ps @ [p]) = analyze_step (analyzePerformance ps) p"
  by (simp add: analyzePerformance_def)

text \<open>
  Where the code does compute the minimum: as long as every record has a positive total and
  at least one correct answer, no stored rate is falsy, and the object holds for each
  category the smallest rate of its records.
\<close>

lemma analyzePerformance_positive_rates:
  assumes "\<forall>p\<in>set ps. 0 < correctAnswers p \<and> 0 < totalQuestions p"
  shows "js_get (analyzePerformance ps) c =
           (if filter (\<lambda>p. category p = c) ps = [] then None
            else Some (Num (Min (set (map success_rate (filter (\<lambda>p. category p = c) ps))))))"
  using assms
proof (induction ps rule: rev_induct)
  case Nil
  then show ?case by (simp add: analyzePerformance_def)
next
  case (snoc p ps)
  let ?old = "filter (\<lambda>p. category p = c) ps"
  let ?S = "set (map success_rate ?old)"
  have pos: "\<forall>r\<in>?S. 0 < r"
    using snoc.prems by (auto simp: success_rate_def)
  have IH: "js_get (analyzePerformance ps) c =
              (if ?old = [] then None else Some (Num (Min ?S)))"
    using snoc by simp
  have rate: "js_div (real (correctAnswers p)) (real (totalQuestions p)) = Num (success_rate p)"
    using snoc.prems by (simp add: js_div_def success_rate_def)
  show ?case
  proof (cases "category p = c")
    case False
    then show ?thesis
      using IH by (simp add: analyzePerformance_snoc analyze_step_def Let_def js_get_js_set)
  next
    case True
    show ?thesis
    proof (cases "?old = []")
      case True
      with \<open>category p = c\<close> IH show ?thesis
        by (simp add: analyzePerformance_snoc analyze_step_def Let_def js_get_js_set rate)
    next
      case False
      then have ne: "?S \<noteq> {}" by (metis map_is_Nil_conv set_empty)
      have fin: "finite ?S" by simp
      have "Min ?S \<in> ?S" using ne fin by (rule_tac Min_in)
      with pos have mpos: "0 < Min ?S" by blast
      have old: "js_get (analyzePerformance ps) c = Some (Num (Min ?S))"
        using IH False by simp
      have new: "Min (insert (success_rate p) ?S) = min (success_rate p) (Min ?S)"
        using ne fin by (simp add: Min_insert)
      show ?thesis
        using \<open>category p = c\<close> False old mpos new
        by (auto simp: analyzePerformance_snoc analyze_step_def Let_def js_get_js_set rate min_def)
    qed
  qed
qed

text \<open>The example of the specification: rates \<open>0.9\<close> and \<open>0.4\<close> for Algebra give \<open>0.4\<close>.\<close>

lemma analyzePerformance_worst_of_two:
  "analyzePerformance
     [\<lparr>correctAnswers = 9, totalQuestions = 10, timeSpent = 300, category = Algebra,
       difficulty = Medium, incorrectQuestionIds = [''math002'']\<rparr>,
      \<lparr>correctAnswers = 4, totalQuestions = 10, timeSpent = 280, category = Algebra,
       difficulty = Medium, incorrectQuestionIds = []\<rparr>]
   = [(Algebra, Num (4 / 10))]"
  by (simp add: analyzePerformance_def analyze_step_def js_div_def)

text \<open>
  A record with a total of \<open>0\<close> has the rate \<open>NaN\<close>. After a record with a positive rate
  it is passed over, since no comparison with \<open>NaN\<close> holds; as the only record of its
  category it is stored.
\<close>

lemma analyzePerformance_zero_total:
  "analyzePerformance
     [\<lparr>correctAnswers = 5, totalQuestions = 10, timeSpent = 300, category = Algebra,
       difficulty = Medium, incorrectQuestionIds = []\<rparr>,
      \<lparr>correctAnswers = 0, totalQuestions = 0, timeSpent = 1, category = Algebra,
       difficulty = Medium, incorrectQuestionIds = []\<rparr>]
   = [(Algebra, Num (1 / 2))]"
  "analyzePerformance
     [\<lparr>correctAnswers = 0, totalQuestions = 0, timeSpent = 1, category = Algebra,
       difficulty = Medium, incorrectQuestionIds = []\<rparr>]
   = [(Algebra, NaN)]"
  by (simp_all add: analyzePerformance_def analyze_step_def js_div_def)

text \<open>
  C2. The claim: each category is mapped to the minimum of its records' rates. The code
  tests the stored rate with \<open>!\<close>, so a stored rate of \<open>0\<close> counts as absent and the next
  record of the category replaces it: a session without a correct answer followed by one
  with 5 of 10 leaves \<open>0.5\<close> for Algebra, where the minimum is \<open>0\<close>.
\<close>

theorem analyzePerformance_zero_rate_replaced:
  "analyzePerformance
     [\<lparr>correctAnswers = 0, totalQuestions = 10, timeSpent = 300, category = Algebra,
       difficulty = Medium, incorrectQuestionIds = [''math002'']\<rparr>,
      \<lparr>correctAnswers = 5, totalQuestions = 10, timeSpent = 280, category = Algebra,
       difficulty = Medium, incorrectQuestionIds = []\<rparr>]
   = [(Algebra, Num (1 / 2))]"
  by (simp add: analyzePerformance_def analyze_step_def js_div_def)


section \<open>Numbers: rounding to a double\<close>

lemma round_even_le: "y \<le> of_int N \<Longrightarrow> round_even y \<le> N"
proof -
  assume a: "y \<le> of_int N"
  show ?thesis
  proof (cases "y = of_int N")
    case True
    then show ?thesis by (simp add: round_even_def)
  next
    case False
    with a have "y < of_int N" by simp
    then have "\<lfloor>y\<rfloor> < N" by (simp add: floor_less_iff)
    then show ?thesis by (simp add: round_even_def Let_def)
  qed
qed

lemma round_even_ge: "of_int N \<le> y \<Longrightarrow> N \<le> round_even y"
proof -
  assume "of_int N \<le> y"
  then have "N \<le> \<lfloor>y\<rfloor>" by (simp add: le_floor_iff)
  then show ?thesis by (simp add: round_even_def Let_def)
qed

lemma round_even_nonneg: "0 \<le> y \<Longrightarrow> 0 \<le> round_even y"
  using round_even_ge[of 0 y] by simp

text \<open>The search finds the exponent of a binade from its two bounds.\<close>

lemma exponent_from_normal:
  "1 \<le> k \<Longrightarrow> k \<le> n \<Longrightarrow> 2 powi (int k - 1022) \<le> a \<Longrightarrow> a < 2 powi (int k - 1021)
     \<Longrightarrow> exponent_from n a = int k - 1074"
proof (induction n)
  case 0
  then show ?case by simp
next
  case (Suc n)
  show ?case
  proof (cases "k = Suc n")
    case True
    with Suc.prems show ?thesis by simp
  next
    case False
    with Suc.prems have kn: "k \<le> n" by simp
    have "(2::real) powi (int k - 1021) \<le> 2 powi (int (Suc n) - 1022)"
      using kn by (intro power_int_increasing) auto
    with Suc.prems(4) have "\<not> 2 powi (int (Suc n) - 1022) \<le> a" by linarith
    with Suc.IH[OF Suc.prems(1) kn Suc.prems(3,4)] show ?thesis by simp
  qed
qed

lemma double_exponent_eq:
  assumes "- 1073 \<le> e" "e \<le> 971" "2 powi (e + 52) \<le> a" "a < 2 powi (e + 53)"
  shows "double_exponent a = e"
proof -
  define k where "k = nat (e + 1074)"
  have k: "int k = e + 1074" "1 \<le> k" "k \<le> 2045" using assms(1,2) by (simp_all add: k_def)
  have e1: "int k - 1022 = e + 52" and e2: "int k - 1021 = e + 53" and e3: "int k - 1074 = e"
    using k(1) by simp_all
  from assms(3) have a1: "2 powi (int k - 1022) \<le> a" by (simp only: e1)
  from assms(4) have a2: "a < 2 powi (int k - 1021)" by (simp only: e2)
  from exponent_from_normal[OF k(2,3) a1 a2] show ?thesis
    by (simp only: double_exponent_def e3)
qed

text \<open>What the search returns, for any number.\<close>

lemma exponent_from_range:
  "- 1074 \<le> exponent_from n a \<and> exponent_from n a \<le> int n - 1074
   \<and> (- 1074 < exponent_from n a \<longrightarrow> 2 powi (exponent_from n a + 52) \<le> a)
   \<and> (exponent_from n a < int n - 1074 \<longrightarrow> a < 2 powi (exponent_from n a + 53))"
proof (induction n)
  case 0
  show ?case by simp
next
  case (Suc n)
  show ?case
  proof (cases "2 powi (int (Suc n) - 1022) \<le> a")
    case True
    have "int (Suc n) - 1074 + 52 = int (Suc n) - 1022" by simp
    with True show ?thesis by (simp del: of_nat_Suc)
  next
    case False
    then have r: "exponent_from (Suc n) a = exponent_from n a" by simp
    have "exponent_from n a < int (Suc n) - 1074 \<longrightarrow> a < 2 powi (exponent_from n a + 53)"
    proof
      assume "exponent_from n a < int (Suc n) - 1074"
      show "a < 2 powi (exponent_from n a + 53)"
      proof (cases "exponent_from n a < int n - 1074")
        case True
        with Suc.IH show ?thesis by blast
      next
        case False
        with Suc.IH have "exponent_from n a = int n - 1074" by linarith
        then have eq: "exponent_from n a + 53 = int (Suc n) - 1022" by simp
        from \<open>\<not> 2 powi (int (Suc n) - 1022) \<le> a\<close>
        have "a < 2 powi (int (Suc n) - 1022)" by (simp only: not_le)
        then show ?thesis by (simp only: eq)
      qed
    qed
    with Suc.IH r show ?thesis by (simp del: of_nat_Suc exponent_from.simps)
  qed
qed

lemma double_exponent_range:
  "- 1074 \<le> double_exponent a" "double_exponent a \<le> 971"
  "- 1074 < double_exponent a \<Longrightarrow> 2 powi (double_exponent a + 52) \<le> a"
  "double_exponent a < 971 \<Longrightarrow> a < 2 powi (double_exponent a + 53)"
  using exponent_from_range[of 2045 a] by (simp_all add: double_exponent_def)

text \<open>The double of a positive number in a known binade.\<close>

lemma to_double_eval:
  assumes "- 1073 \<le> e" "e \<le> 970" "2 powi (e + 52) \<le> x" "x < 2 powi (e + 53)"
  shows "to_double x = Num (of_int (round_even (x / 2 powi e)) * 2 powi e)"
proof -
  have p: "(0::real) < 2 powi (e + 52)" by simp
  with assms(3) have x: "0 < x" by linarith
  have e: "double_exponent x = e"
    using assms by (intro double_exponent_eq) auto
  have "x / 2 powi e < 2 powi (e + 53) / 2 powi e"
    using assms(4) by (simp add: divide_strict_right_mono)
  also have "\<dots> = 2 powi 53" by (simp add: power_int_add)
  finally have "x / 2 powi e \<le> of_int (2 ^ 53)" by simp
  then have "round_even (x / 2 powi e) \<le> 2 ^ 53" by (rule round_even_le)
  then have "(of_int (round_even (x / 2 powi e)) :: real) \<le> of_int (2 ^ 53)"
    by (simp only: of_int_le_iff)
  then have "of_int (round_even (x / 2 powi e)) * 2 powi e \<le> (2::real) powi 53 * 2 powi e"
    by (simp add: mult_right_mono)
  also have "\<dots> = 2 powi (e + 53)" by (simp add: power_int_add)
  also have "\<dots> \<le> 2 powi 1023" using assms(2) by (intro power_int_increasing) auto
  also have "\<dots> < (2::real) powi 1024" by (intro power_int_strict_increasing) auto
  finally have nb: "\<not> (2::real) powi 1024 \<le> of_int (round_even (x / 2 powi e)) * 2 powi e"
    by (simp only: not_le)
  have ne: "x \<noteq> 0" using x by simp
  show ?thesis
    unfolding to_double_def Let_def abs_of_pos[OF x] sgn_pos[OF x] e
    by (simp only: ne nb if_False mult_1)
qed

lemma powi_nonpos: "e \<le> 0 \<Longrightarrow> (2::real) powi e = 1 / 2 ^ nat (- e)"
  by (cases "e = 0") (simp_all add: power_int_def inverse_eq_divide power_one_over)

text \<open>Below \<open>2^53\<close>, rounding never crosses an integer.\<close>

lemma to_double_between:
  assumes "0 < x" "x < 2 powi 53"
  shows "\<exists>y. to_double x = Num y \<and> 0 \<le> y
           \<and> (\<forall>D. x \<le> of_int D \<longrightarrow> y \<le> of_int D)
           \<and> (\<forall>D. of_int D \<le> x \<longrightarrow> of_int D \<le> y)"
proof -
  let ?e = "double_exponent x"
  let ?m = "round_even (x / 2 powi ?e)"
  let ?v = "of_int ?m * 2 powi ?e :: real"
  have e0: "?e \<le> 0"
  proof (rule ccontr)
    assume "\<not> ?e \<le> 0"
    then have pos: "0 < ?e" by simp
    then have "2 powi (?e + 52) \<le> x" by (intro double_exponent_range(3)) simp
    moreover have "(2::real) powi 53 \<le> 2 powi (?e + 52)"
      using pos by (intro power_int_increasing) auto
    ultimately show False using assms(2) by linarith
  qed
  define p where "p = (2::real) ^ nat (- ?e)"
  have pp: "0 < p" by (simp add: p_def)
  have s: "(2::real) powi ?e = 1 / p"
    using powi_nonpos[OF e0] by (simp only: p_def)
  have sc: "x / 2 powi ?e = x * p" by (simp add: s)
  have ip: "of_int D * p = of_int (D * 2 ^ nat (- ?e))" for D by (simp add: p_def)
  have m0: "0 \<le> ?m" using assms(1) by (intro round_even_nonneg) simp
  then have v0: "0 \<le> ?v" by simp
  have up: "?v \<le> of_int D" if "x \<le> of_int D" for D
  proof -
    have "x * p \<le> of_int D * p" using that pp by simp
    then have "x / 2 powi ?e \<le> of_int (D * 2 ^ nat (- ?e))" by (simp only: sc ip)
    then have "?m \<le> D * 2 ^ nat (- ?e)" by (rule round_even_le)
    then have "(of_int ?m :: real) \<le> of_int (D * 2 ^ nat (- ?e))" by (simp only: of_int_le_iff)
    then have "of_int ?m \<le> of_int D * p" by (simp only: ip)
    then have "of_int ?m / p \<le> of_int D" using pp by (simp add: pos_divide_le_eq)
    then show ?thesis by (simp add: s)
  qed
  have low: "of_int D \<le> ?v" if "of_int D \<le> x" for D
  proof -
    have "of_int D * p \<le> x * p" using that pp by simp
    then have "of_int (D * 2 ^ nat (- ?e)) \<le> x / 2 powi ?e" by (simp only: sc ip)
    then have "D * 2 ^ nat (- ?e) \<le> ?m" by (rule round_even_ge)
    then have "(of_int (D * 2 ^ nat (- ?e)) :: real) \<le> of_int ?m" by (simp only: of_int_le_iff)
    then have "of_int D * p \<le> of_int ?m" by (simp only: ip)
    then have "of_int D \<le> of_int ?m / p" using pp by (simp add: pos_le_divide_eq)
    then show ?thesis by (simp add: s)
  qed
  have "x \<le> of_int (2 ^ 53)" using assms(2) by simp
  from up[OF this] have "?v \<le> 2 powi 53" by simp
  also have "\<dots> < (2::real) powi 1024" by (intro power_int_strict_increasing) auto
  finally have nb: "\<not> (2::real) powi 1024 \<le> ?v" by (simp only: not_le)
  have ne: "x \<noteq> 0" using assms(1) by simp
  have "to_double x = Num ?v"
    unfolding to_double_def Let_def abs_of_pos[OF assms(1)] sgn_pos[OF assms(1)]
    by (simp only: ne nb if_False mult_1)
  with v0 up low show ?thesis by blast
qed


text \<open>The double of a number in \<open>[0, D]\<close>, for a natural \<open>D\<close> below \<open>2^53\<close>, is in \<open>[0, D]\<close>.\<close>

lemma to_double_in_range:
  assumes "0 \<le> x" "x \<le> real D" "D < 2 ^ 53"
  shows "\<exists>y. to_double x = Num y \<and> 0 \<le> y \<and> y \<le> real D"
proof (cases "x = 0")
  case True
  then show ?thesis by (simp add: to_double_def)
next
  case False
  with assms(1) have p: "0 < x" by simp
  from assms(3) have "real D < 2 ^ 53" by (metis of_nat_less_iff of_nat_numeral of_nat_power)
  with assms(2) have b: "x < 2 powi 53" by simp
  from to_double_between[OF p b] obtain y where y: "to_double x = Num y" "0 \<le> y"
    and up: "\<forall>D. x \<le> of_int D \<longrightarrow> y \<le> of_int D" by blast
  from up[rule_format, of "int D"] assms(2) have "y \<le> real D" by simp
  with y show ?thesis by blast
qed




section \<open>AIService: score prediction\<close>











lemma double_three_fifths: "to_double (3 / 5) = Num (5404319552844595 / 9007199254740992)"
  using to_double_eval[of "- 53" "3 / 5"] by (simp add: round_even_def Let_def)











section \<open>AIService: recommendations\<close>

lemma recommend_foldl:
  "foldl (recommend_step other_text) acc m =
     acc @ map (\<lambda>(c, v).
        \<lparr>rec_category = c,
         reason = ''Your success rate of ''
                  @ number_text other_text (js_Math_round (js_times (js_number v) (Num 100)))
                  @ ''% indicates room for improvement'',
         recommendedResources = getResourcesForCategory c,
         recommendedQuestions = getMockQuestionIdsForCategory c\<rparr>)
       (filter (\<lambda>(c, v). js_lt (js_number v) (to_double (7 / 10))) m)"
  by (induction m arbitrary: acc) (auto simp: recommend_step_def Let_def)

text \<open>The doubles of the examples: the rates, the threshold and the products with 100.\<close>

lemma double_seven_tenths: "to_double (7 / 10) = Num (3152519739159347 / 4503599627370496)"
  using to_double_eval[of "- 53" "7 / 10"] by (simp add: round_even_def Let_def)

lemma double_three_tenths: "to_double (3 / 10) = Num (5404319552844595 / 18014398509481984)"
  using to_double_eval[of "- 54" "3 / 10"] by (simp add: round_even_def Let_def)

lemma double_nine_tenths: "to_double (9 / 10) = Num (8106479329266893 / 9007199254740992)"
  using to_double_eval[of "- 53" "9 / 10"] by (simp add: round_even_def Let_def)

lemma double_23_of_40: "to_double (23 / 40) = Num (2589569785738035 / 4503599627370496)"
  using to_double_eval[of "- 53" "23 / 40"] by (simp add: round_even_def Let_def)

lemma double_three_fifths_100: "to_double (5404319552844595 / 9007199254740992 * 100) = Num 60"
  using to_double_eval[of "- 47" "5404319552844595 / 9007199254740992 * 100"]
  by (simp add: round_even_def Let_def)

lemma double_three_tenths_100: "to_double (5404319552844595 / 18014398509481984 * 100) = Num 30"
  using to_double_eval[of "- 48" "5404319552844595 / 18014398509481984 * 100"]
  by (simp add: round_even_def Let_def)

lemma double_23_of_40_100:
  "to_double (2589569785738035 / 4503599627370496 * 100)
     = Num (8092405580431359 / 140737488355328)"
  using to_double_eval[of "- 47" "2589569785738035 / 4503599627370496 * 100"]
  by (simp add: round_even_def Let_def)

lemma below_threshold:
  "js_lt (js_number (Num (6 / 10))) (to_double (7 / 10))"
  "js_lt (js_number (Num (3 / 10))) (to_double (7 / 10))"
  "js_lt (js_number (Num (23 / 40))) (to_double (7 / 10))"
  "\<not> js_lt (js_number (Num (9 / 10))) (to_double (7 / 10))"
  by (simp_all add: double_seven_tenths double_three_fifths double_three_tenths
      double_nine_tenths double_23_of_40)

lemma percent_of_rate:
  "js_Math_round (js_times (js_number (Num (6 / 10))) (Num 100)) = Num 60"
  "js_Math_round (js_times (js_number (Num (3 / 10))) (Num 100)) = Num 30"
  "js_Math_round (js_times (js_number (Num (23 / 40))) (Num 100)) = Num 57"
  using double_three_fifths_100 double_three_tenths_100 double_23_of_40_100
  by (simp_all add: double_three_fifths double_three_tenths double_23_of_40 Math_round_def)

lemma percent_text:
  "number_text other_text (Num 60) = ''60''"
  "number_text other_text (Num 30) = ''30''"
  "number_text other_text (Num 57) = ''57''"
  by (simp_all add: show_int_def show_nat.simps digit_char_def)

text \<open>
  The percentage of a rate from 0 to 1 is an integer from 0 to 100, printed with its
  digits.
\<close>

lemma percent_in_range:
  assumes "0 \<le> r" "r \<le> 1"
  shows "\<exists>k\<le>100. js_Math_round (js_times (js_number (Num r)) (Num 100)) = Num (real k)
           \<and> number_text other_text (Num (real k)) = show_nat k"
proof -
  have q: "0 \<le> r" "r \<le> real 1" using assms by simp_all
  have one: "(1::nat) < 2 ^ 53" by simp
  from to_double_in_range[OF q one] obtain y
    where y: "to_double r = Num y" "0 \<le> y" "y \<le> 1" by auto
  then have p: "0 \<le> y * 100" "y * 100 \<le> real 100" by simp_all
  have h: "(100::nat) < 2 ^ 53" by simp
  from to_double_in_range[OF p h] obtain z
    where z: "to_double (y * 100) = Num z" "0 \<le> z" "z \<le> 100" by auto
  define k where "k = nat (Math_round z)"
  have "0 \<le> Math_round z" "Math_round z \<le> 100"
    using z(2,3) by (simp_all add: Math_round_def floor_le_iff le_floor_iff)
  then have k: "real_of_int (Math_round z) = real k" "k \<le> 100" by (simp_all add: k_def)
  have "js_Math_round (js_times (js_number (Num r)) (Num 100)) = Num (real k)"
    using y(1) z(1) k(1) by simp
  moreover have "real k < 10 ^ 21" using k(2) by simp
  then have "number_text other_text (Num (real k)) = show_nat k"
    by (simp add: show_int_def)
  ultimately show ?thesis using k(2) by blast
qed

text \<open>
  C8, as the claim states it, fails: the recommendations are not ordered by rate. For
  Algebra at \<open>0.6\<close> entered before Geometry at \<open>0.3\<close>, the rates of the recommended
  categories, in the order of the recommendations, are not ascending.
\<close>

theorem generateRecommendations_not_ascending:
  "\<forall>other_text.
     map rec_category
       (generateRecommendations other_text [(Algebra, Num (6 / 10)), (Geometry, Num (3 / 10))])
       = [Algebra, Geometry]
     \<and> \<not> sorted (map (entry_rate [(Algebra, Num (6 / 10)), (Geometry, Num (3 / 10))] \<circ> rec_category)
          (generateRecommendations other_text [(Algebra, Num (6 / 10)), (Geometry, Num (3 / 10))]))"
proof (intro allI conjI)
  fix other_text :: "real \<Rightarrow> string"
  let ?m = "[(Algebra, Num (6 / 10)), (Geometry, Num (3 / 10))]"
  have c: "map rec_category (generateRecommendations other_text ?m) = [Algebra, Geometry]"
    unfolding generateRecommendations_def recommend_foldl using below_threshold(1,2) by simp
  show "map rec_category (generateRecommendations other_text ?m) = [Algebra, Geometry]"
    by (rule c)
  have "map (entry_rate ?m \<circ> rec_category) (generateRecommendations other_text ?m)
          = map (entry_rate ?m) (map rec_category (generateRecommendations other_text ?m))"
    by simp
  also have "\<dots> = [6 / 10, 3 / 10]" by (simp only: c) (simp add: entry_rate_def)
  finally have e: "map (entry_rate ?m \<circ> rec_category) (generateRecommendations other_text ?m)
                     = [6 / 10, 3 / 10]" .
  show "\<not> sorted (map (entry_rate ?m \<circ> rec_category)
            (generateRecommendations other_text ?m))"
    unfolding e by (simp del: sorted_wrt.simps add: sorted2)
qed

text \<open>
  C8, amended. \<open>generateRecommendations\<close> yields one recommendation for each entry of the
  mapping whose rate is below \<open>0.7\<close>, in the order of the entries of the mapping, and the
  reason of each embeds \<open>Math.round(rate * 100)\<close>, the comparison and the product being
  those of doubles; for a rate from 0 to 1 this is an integer from 0 to 100, printed with
  its digits.
\<close>

theorem generateRecommendations_entry_order:
  "map rec_category (generateRecommendations other_text m) =
     map fst (filter (\<lambda>(c, v). js_lt (js_number v) (to_double (7 / 10))) m)
   \<and> map reason (generateRecommendations other_text m) =
     map (\<lambda>(c, v). ''Your success rate of ''
                    @ number_text other_text (js_Math_round (js_times (js_number v) (Num 100)))
                    @ ''% indicates room for improvement'')
       (filter (\<lambda>(c, v). js_lt (js_number v) (to_double (7 / 10))) m)
   \<and> (\<forall>r. 0 \<le> r \<and> r \<le> 1
        \<longrightarrow> (\<exists>k\<le>100. js_Math_round (js_times (js_number (Num r)) (Num 100)) = Num (real k)
               \<and> number_text other_text (Num (real k)) = show_nat k))"
proof -
  have "map rec_category (generateRecommendations other_text m) =
     map fst (filter (\<lambda>(c, v). js_lt (js_number v) (to_double (7 / 10))) m)"
    by (simp add: generateRecommendations_def recommend_foldl split_def comp_def)
  moreover have "map reason (generateRecommendations other_text m) =
     map (\<lambda>(c, v). ''Your success rate of ''
                    @ number_text other_text (js_Math_round (js_times (js_number v) (Num 100)))
                    @ ''% indicates room for improvement'')
       (filter (\<lambda>(c, v). js_lt (js_number v) (to_double (7 / 10))) m)"
    by (simp add: generateRecommendations_def recommend_foldl split_def comp_def)
  ultimately show ?thesis using percent_in_range by blast
qed

text \<open>
  C8, amended, on an example: of Algebra at \<open>0.6\<close>, Grammar at \<open>0.9\<close>, Geometry at \<open>0.3\<close> and
  Vocabulary at \<open>0.575\<close>, Algebra, Geometry and Vocabulary are recommended, in this order,
  with 60%, 30% and 57% in the reasons (\<open>0.575 * 100\<close> is \<open>57.49999999999999\<close>).
\<close>

theorem generateRecommendations_entry_order_witness:
  "\<forall>other_text.
     map rec_category (generateRecommendations other_text
       [(Algebra, Num (6 / 10)), (Grammar, Num (9 / 10)), (Geometry, Num (3 / 10)),
        (Vocabulary, Num (23 / 40))])
       = [Algebra, Geometry, Vocabulary]
     \<and> map reason (generateRecommendations other_text
       [(Algebra, Num (6 / 10)), (Grammar, Num (9 / 10)), (Geometry, Num (3 / 10)),
        (Vocabulary, Num (23 / 40))]) =
       [''Your success rate of 60% indicates room for improvement'',
        ''Your success rate of 30% indicates room for improvement'',
        ''Your success rate of 57% indicates room for improvement'']
     \<and> (\<exists>k\<le>100. js_Math_round (js_times (js_number (Num (23 / 40))) (Num 100)) = Num (real k)
           \<and> number_text other_text (Num (real k)) = show_nat k)"
proof
  fix other_text :: "real \<Rightarrow> string"
  let ?m = "[(Algebra, Num (6 / 10)), (Grammar, Num (9 / 10)), (Geometry, Num (3 / 10)),
             (Vocabulary, Num (23 / 40))]"
  have r: "(0::real) \<le> 23 / 40 \<and> (23 / 40 :: real) \<le> 1" by simp
  have f: "filter (\<lambda>(c, v). js_lt (js_number v) (to_double (7 / 10))) ?m
             = [(Algebra, Num (6 / 10)), (Geometry, Num (3 / 10)), (Vocabulary, Num (23 / 40))]"
    using below_threshold by simp
  note th = generateRecommendations_entry_order[of other_text ?m, unfolded f]
  have a: "map rec_category (generateRecommendations other_text ?m) = [Algebra, Geometry, Vocabulary]"
    using th[THEN conjunct1] by (simp only: list.map prod.case fst_conv)
  have b: "map reason (generateRecommendations other_text ?m) =
       [''Your success rate of 60% indicates room for improvement'',
        ''Your success rate of 30% indicates room for improvement'',
        ''Your success rate of 57% indicates room for improvement'']"
    using th[THEN conjunct2, THEN conjunct1]
    by (simp only: list.map prod.case percent_of_rate percent_text append.simps)
  have c: "\<forall>r. 0 \<le> r \<and> r \<le> 1
        \<longrightarrow> (\<exists>k\<le>100. js_Math_round (js_times (js_number (Num r)) (Num 100)) = Num (real k)
               \<and> number_text other_text (Num (real k)) = show_nat k)"
    using th[THEN conjunct2, THEN conjunct2] .
  from c[rule_format, OF r] a b
  show "map rec_category (generateRecommendations other_text ?m) = [Algebra, Geometry, Vocabulary]
     \<and> map reason (generateRecommendations other_text ?m) =
       [''Your success rate of 60% indicates room for improvement'',
        ''Your success rate of 30% indicates room for improvement'',
        ''Your success rate of 57% indicates room for improvement'']
     \<and> (\<exists>k\<le>100. js_Math_round (js_times (js_number (Num (23 / 40))) (Num 100)) = Num (real k)
           \<and> number_text other_text (Num (real k)) = show_nat k)"
    by (simp only: simp_thms)
qed


section \<open>AIService: question generation\<close>

lemma generateAIQuestions_total: "\<exists>qs. generateAIQuestions env c d n = Inr qs"
  by (simp add: generateAIQuestions_def split: sum.splits)

lemma getMockQuestionsForCategory_props:
  "length (getMockQuestionsForCategory env c d n) = n"
  "\<forall>q\<in>set (getMockQuestionsForCategory env c d n).
      aiq_isGenerated q \<and> aiq_source q = Some ''GPT-4o (Mock)'' \<and> aiq_correctAnswer q = 0
      \<and> length (aiq_options q) = 4 \<and> aiq_category q = c \<and> aiq_difficulty q = d"
  by (auto simp: getMockQuestionsForCategory_def)

lemma map_enumerate_snd: "map (\<lambda>(i, x). g x) (enumerate n xs) = map g xs"
  by (induction xs arbitrary: n) simp_all

text \<open>With keys, a parsed array of questions is returned entry by entry, nothing checked.\<close>

lemma generateAIQuestions_parsed:
  assumes "areApiKeysConfigured (apiKeys env)" "completion env = QuestionsData raws"
  shows "\<exists>qs. generateAIQuestions env c d n = Inr qs \<and> length qs = length raws
           \<and> map aiq_question qs = map raw_question raws
           \<and> map aiq_options qs = map raw_options raws
           \<and> map aiq_correctAnswer qs = map raw_correctAnswerIndex raws
           \<and> map aiq_explanation qs = map raw_explanation raws
           \<and> (\<forall>q\<in>set qs. aiq_isGenerated q \<and> aiq_source q = Some ''GPT-4''
                 \<and> aiq_category q = c \<and> aiq_difficulty q = d)"
  using assms
  by (auto simp: generateAIQuestions_def generateAIQuestions_try_def split_def comp_def
      map_enumerate_snd[unfolded split_def])

text \<open>
  C7, as the claim states it, fails: a response that parses to an array of questions is
  returned entry by entry, also when it breaks the required shape. With keys, five
  questions asked for and a completion of one question with two options, the result is
  that one question, not the five template questions.
\<close>

theorem generateAIQuestions_keeps_malformed_response:
  "generateAIQuestions online_two_options Algebra Medium 5
     = Inr [\<lparr>aiq_id = ''ai_1730000000000_0'',
             aiq_question = ''Is 7 a prime number?'',
             aiq_options = [''Yes'', ''No''],
             aiq_correctAnswer = 0,
             aiq_explanation = ''7 has no divisor other than 1 and 7.'',
             aiq_category = Algebra,
             aiq_difficulty = Medium,
             aiq_createdAt = 1730000000000,
             aiq_isGenerated = True,
             aiq_source = Some ''GPT-4''\<rparr>]
   \<and> length (getMockQuestionsForCategory online_two_options Algebra Medium 5) = 5
   \<and> generateAIQuestions online_two_options Algebra Medium 5
       \<noteq> Inr (getMockQuestionsForCategory online_two_options Algebra Medium 5)"
proof -
  have r: "generateAIQuestions online_two_options Algebra Medium 5
     = Inr [\<lparr>aiq_id = ''ai_1730000000000_0'',
             aiq_question = ''Is 7 a prime number?'',
             aiq_options = [''Yes'', ''No''],
             aiq_correctAnswer = 0,
             aiq_explanation = ''7 has no divisor other than 1 and 7.'',
             aiq_category = Algebra,
             aiq_difficulty = Medium,
             aiq_createdAt = 1730000000000,
             aiq_isGenerated = True,
             aiq_source = Some ''GPT-4''\<rparr>]"
    by (simp add: generateAIQuestions_def generateAIQuestions_try_def online_two_options_def
        areApiKeysConfigured_def show_int_def show_nat.simps digit_char_def)
  have l: "length (getMockQuestionsForCategory online_two_options Algebra Medium 5) = 5"
    by (rule getMockQuestionsForCategory_props(1))
  have "generateAIQuestions online_two_options Algebra Medium 5
       \<noteq> Inr (getMockQuestionsForCategory online_two_options Algebra Medium 5)"
  proof
    assume "generateAIQuestions online_two_options Algebra Medium 5
       = Inr (getMockQuestionsForCategory online_two_options Algebra Medium 5)"
    with r have "length (getMockQuestionsForCategory online_two_options Algebra Medium 5) = 1"
      by simp
    with l show False by simp
  qed
  with r l show ?thesis by (simp only: simp_thms)
qed

text \<open>
  C7, amended. \<open>generateAIQuestions\<close> never hands an error to its caller. When the keys are
  missing, the request fails, the content cannot be read, the text is not JSON or the
  parsed value holds no array of questions, its result is the list of the template
  questions: exactly \<open>n\<close> of them, each marked as generated and with the source of the
  template. When the response parses to an array of questions, the result is that array,
  entry by entry and whatever its length, its options and its indices, each question
  marked as generated and with the source of the remote model.
\<close>

theorem generateAIQuestions_absorbs_failures:
  "(\<exists>qs. generateAIQuestions env c d n = Inr qs)
   \<and> (\<not> areApiKeysConfigured (apiKeys env) \<or> completion env = RequestFailed
       \<or> completion env = NoContent \<or> completion env = InvalidJSON
       \<or> completion env = NoQuestionsArray
      \<longrightarrow> generateAIQuestions env c d n = Inr (getMockQuestionsForCategory env c d n)
          \<and> length (getMockQuestionsForCategory env c d n) = n
          \<and> (\<forall>q\<in>set (getMockQuestionsForCategory env c d n).
                aiq_isGenerated q \<and> aiq_source q = Some ''GPT-4o (Mock)''))
   \<and> (\<forall>raws. areApiKeysConfigured (apiKeys env) \<and> completion env = QuestionsData raws
      \<longrightarrow> (\<exists>qs. generateAIQuestions env c d n = Inr qs \<and> length qs = length raws
             \<and> map aiq_question qs = map raw_question raws
             \<and> map aiq_options qs = map raw_options raws
             \<and> map aiq_correctAnswer qs = map raw_correctAnswerIndex raws
             \<and> map aiq_explanation qs = map raw_explanation raws
             \<and> (\<forall>q\<in>set qs. aiq_isGenerated q \<and> aiq_source q = Some ''GPT-4''
                   \<and> aiq_category q = c \<and> aiq_difficulty q = d)))"
proof -
  have "(\<not> areApiKeysConfigured (apiKeys env) \<or> completion env = RequestFailed
       \<or> completion env = NoContent \<or> completion env = InvalidJSON
       \<or> completion env = NoQuestionsArray
      \<longrightarrow> generateAIQuestions env c d n = Inr (getMockQuestionsForCategory env c d n)
          \<and> length (getMockQuestionsForCategory env c d n) = n
          \<and> (\<forall>q\<in>set (getMockQuestionsForCategory env c d n).
                aiq_isGenerated q \<and> aiq_source q = Some ''GPT-4o (Mock)''))"
    using getMockQuestionsForCategory_props[of env c d n]
    by (auto simp: generateAIQuestions_def generateAIQuestions_try_def split: sum.splits)
  with generateAIQuestions_total[of env c d n] generateAIQuestions_parsed[of env _ c d n]
  show ?thesis by blast
qed

text \<open>
  C7, amended, on examples: without keys, a request for three Algebra questions gives the
  three template questions; with keys and a completion of one question with two options,
  a request for five questions gives one question with two options.
\<close>

theorem generateAIQuestions_absorbs_failures_witness:
  "\<not> areApiKeysConfigured (apiKeys (offline 1730000000000))
   \<and> generateAIQuestions (offline 1730000000000) Algebra Medium 3
       = Inr (getMockQuestionsForCategory (offline 1730000000000) Algebra Medium 3)
   \<and> length (getMockQuestionsForCategory (offline 1730000000000) Algebra Medium 3) = 3
   \<and> list_all (\<lambda>q. aiq_isGenerated q \<and> aiq_source q = Some ''GPT-4o (Mock)'')
        (getMockQuestionsForCategory (offline 1730000000000) Algebra Medium 3)
   \<and> areApiKeysConfigured (apiKeys online_two_options)
   \<and> (\<exists>qs. generateAIQuestions online_two_options Algebra Medium 5 = Inr qs \<and> length qs = 1
         \<and> map aiq_options qs = [[''Yes'', ''No'']]
         \<and> map aiq_correctAnswer qs = [0]
         \<and> list_all (\<lambda>q. aiq_isGenerated q \<and> aiq_source q = Some ''GPT-4'') qs)"
proof -
  have k: "\<not> areApiKeysConfigured (apiKeys (offline 1730000000000))"
    by (simp add: offline_def no_keys_def areApiKeysConfigured_def)
  have o: "areApiKeysConfigured (apiKeys online_two_options)"
    by (simp add: online_two_options_def areApiKeysConfigured_def)
  have c: "completion online_two_options = QuestionsData
        [\<lparr>raw_question = ''Is 7 a prime number?'',
          raw_options = [''Yes'', ''No''],
          raw_correctAnswerIndex = 0,
          raw_explanation = ''7 has no divisor other than 1 and 7.''\<rparr>]"
    by (simp add: online_two_options_def)
  from generateAIQuestions_absorbs_failures [of "offline 1730000000000" Algebra Medium 3] k
  have a: "generateAIQuestions (offline 1730000000000) Algebra Medium 3
       = Inr (getMockQuestionsForCategory (offline 1730000000000) Algebra Medium 3)
   \<and> length (getMockQuestionsForCategory (offline 1730000000000) Algebra Medium 3) = 3
   \<and> list_all (\<lambda>q. aiq_isGenerated q \<and> aiq_source q = Some ''GPT-4o (Mock)'')
        (getMockQuestionsForCategory (offline 1730000000000) Algebra Medium 3)"
    by (simp add: list_all_iff)
  from generateAIQuestions_absorbs_failures [of online_two_options Algebra Medium 5] o c
  have b: "\<exists>qs. generateAIQuestions online_two_options Algebra Medium 5 = Inr qs \<and> length qs = 1
         \<and> map aiq_options qs = [[''Yes'', ''No'']]
         \<and> map aiq_correctAnswer qs = [0]
         \<and> list_all (\<lambda>q. aiq_isGenerated q \<and> aiq_source q = Some ''GPT-4'') qs"
    by (auto simp: list_all_iff)
  from k o a b show ?thesis by (simp only: simp_thms)
qed


section \<open>QuestionService: the shuffle\<close>

lemma random_index_in_range:
  assumes "0 \<le> r" "r < 1"
  shows "nat \<lfloor>r * real (Suc i)\<rfloor> < Suc i"
proof -
  have "r * real (Suc i) < real (Suc i)" using assms by simp
  then have "\<lfloor>r * real (Suc i)\<rfloor> < int (Suc i)" by (simp add: floor_less_iff)
  then show ?thesis by linarith
qed

text \<open>Every round of the loop swaps two elements inside the list.\<close>

lemma shuffle_loop_mset:
  "Math_random_contract random \<Longrightarrow> k < length xs \<Longrightarrow> mset (shuffle_loop random k xs) = mset xs"
proof (induction k arbitrary: xs)
  case 0
  then show ?case by simp
next
  case (Suc k)
  let ?j = "nat \<lfloor>random (Suc k) * real (Suc k + 1)\<rfloor>"
  have "?j < Suc (Suc k)"
    using Suc.prems(1) random_index_in_range[of "random (Suc k)" "Suc k"]
    by (simp add: Math_random_contract_def)
  with Suc.prems(2) have j: "?j < length xs" by linarith
  have "mset (xs[Suc k := xs ! ?j, ?j := xs ! Suc k]) = mset xs"
    using Suc.prems(2) j by (simp add: mset_swap)
  moreover have "k < length (xs[Suc k := xs ! ?j, ?j := xs ! Suc k])"
    using Suc.prems(2) by simp
  ultimately show ?case
    using Suc.IH[OF Suc.prems(1), of "xs[Suc k := xs ! ?j, ?j := xs ! Suc k]"]
    by (simp add: Let_def)
qed

lemma shuffleArray_mset:
  "Math_random_contract random \<Longrightarrow> mset (shuffleArray random xs) = mset xs"
  by (cases xs) (simp_all add: shuffleArray_def shuffle_loop_mset)

lemma shuffleArray_set:
  "Math_random_contract random \<Longrightarrow> set (shuffleArray random xs) = set xs"
  by (metis shuffleArray_mset set_mset_mset)

lemma shuffleArray_length:
  "Math_random_contract random \<Longrightarrow> length (shuffleArray random xs) = length xs"
  by (metis shuffleArray_mset size_mset)

lemma shuffle4_zero: "shuffleArray (\<lambda>i. 0) [a, b, c, d] = [b, c, d, a]"
  by (simp add: shuffleArray_def numeral_3_eq_3)


section \<open>QuestionService: the assembled list\<close>

text \<open>The part of C4 that holds: never more questions than asked for.\<close>

lemma getQuestions_length: "length (snd (getQuestions env pool config)) \<le> cfg_count config"
  by (simp add: getQuestions_def Let_def)

text \<open>
  The part of C4 that holds: without AI augmentation, and with no more matching questions
  than asked for, the result is the matching questions (catalog and stored generated
  ones), each once, in some order; there is no error result and the stored questions are
  left as they are.
\<close>

lemma getQuestions_without_AI:
  assumes "cfg_useAI config \<noteq> Some True" "Math_random_contract (random1 env)"
    "length (filteredQuestions config @ matchingAIQuestions pool config) \<le> cfg_count config"
  shows "mset (snd (getQuestions env pool config))
           = mset (filteredQuestions config @ matchingAIQuestions pool config)"
    and "fst (getQuestions env pool config) = pool"
  using assms
  by (simp_all add: getQuestions_def Let_def shuffleArray_mset shuffleArray_length del: mset_append)

text \<open>
  The scenario of the specification on the catalog of the code: ten Algebra questions of
  medium difficulty asked for without AI, one in the catalog, one returned.
\<close>

lemma getQuestions_short_catalog:
  "map q_id (snd (getQuestions (offline_assembly 1730000000000) []
      \<lparr>cfg_categories = Some [Algebra], cfg_difficulty = Some Medium,
       cfg_count = 10, cfg_useAI = Some False\<rparr>)) = [''math002'']"
  by (simp add: getQuestions_def filteredQuestions_def matchingAIQuestions_def mockQuestions_def
      has_categories_def requested_categories_def shuffleArray_def)

lemma mockQuestions_valid: "\<forall>q\<in>set mockQuestions. valid_index q"
  by (simp add: mockQuestions_def valid_index_def)

lemma mockQuestions_distinct: "distinct (map q_id mockQuestions)"
  by (simp add: mockQuestions_def)

lemma show_digits:
  "show_int 1730000000000 = ''1730000000000''"
  "show_nat 0 = ''0''" "show_nat 1 = ''1''" "show_nat (Suc 0) = ''1''"
  by (simp_all add: show_int_def show_nat.simps digit_char_def)

lemma upt_2: "[0..<2] = [0, 1]"
  by (simp add: numeral_2_eq_2)

lemma offline_generate:
  "generateAIQuestions (offline T) c d n = Inr (getMockQuestionsForCategory (offline T) c d n)"
  by (simp add: generateAIQuestions_def generateAIQuestions_try_def offline_def no_keys_def
      areApiKeysConfigured_def)

lemma offline_ids:
  "map q_id (convertedQuestions (offline_assembly 1730000000000) k
       (getMockQuestionsForCategory (offline 1730000000000) c d 2))
   = [''gen_1730000000000_0'', ''gen_1730000000000_1'']"
  by (simp add: convertedQuestions_def getMockQuestionsForCategory_def offline_def upt_2 show_digits)

lemma no_hard_algebra_or_geometry:
  "filteredQuestions \<lparr>cfg_categories = Some [Algebra, Geometry], cfg_difficulty = Some Hard,
     cfg_count = 3, cfg_useAI = Some True\<rparr> = []"
  by (simp add: filteredQuestions_def mockQuestions_def has_categories_def requested_categories_def)

lemma length2_cases: "length xs = 2 \<Longrightarrow> \<exists>a b. xs = [a, b]"
  by (cases xs; cases "tl xs") auto

lemma offline_hard_quiz:
  "map q_id (snd (getQuestions (offline_assembly 1730000000000) []
      \<lparr>cfg_categories = Some [Algebra, Geometry], cfg_difficulty = Some Hard,
       cfg_count = 3, cfg_useAI = Some True\<rparr>))
   = [''gen_1730000000000_1'', ''gen_1730000000000_0'', ''gen_1730000000000_1'']"
proof -
  let ?env = "offline_assembly 1730000000000"
  let ?A = "convertedQuestions ?env 0
              (getMockQuestionsForCategory (offline 1730000000000) Algebra Hard 2)"
  let ?G = "convertedQuestions ?env (Suc 0)
              (getMockQuestionsForCategory (offline 1730000000000) Geometry Hard 2)"
  obtain a0 a1 where A: "?A = [a0, a1]"
    using length2_cases[of ?A]
    by (auto simp: convertedQuestions_def getMockQuestionsForCategory_props(1))
  obtain g0 g1 where G: "?G = [g0, g1]"
    using length2_cases[of ?G]
    by (auto simp: convertedQuestions_def getMockQuestionsForCategory_props(1))
  have ids: "map q_id [a0, a1] = [''gen_1730000000000_0'', ''gen_1730000000000_1'']"
            "map q_id [g0, g1] = [''gen_1730000000000_0'', ''gen_1730000000000_1'']"
    using offline_ids[of 0 Algebra Hard] offline_ids[of "Suc 0" Geometry Hard] A G by simp_all
  have env: "random1 ?env = (\<lambda>i. 0)" "random2 ?env = (\<lambda>i. 0)"
    "\<And>k. generation ?env k = offline 1730000000000"
    by (simp_all add: offline_assembly_def)
  have "snd (getQuestions ?env []
      \<lparr>cfg_categories = Some [Algebra, Geometry], cfg_difficulty = Some Hard,
       cfg_count = 3, cfg_useAI = Some True\<rparr>) = [a1, g0, g1]"
    by (simp add: getQuestions_def no_hard_algebra_or_geometry matchingAIQuestions_def
        shuffleArray_def[of _ "[]"] has_categories_def requested_categories_def env
        offline_generate A G shuffle4_zero)
  with ids show ?thesis by simp
qed

text \<open>
  C4. The claim: the assembled list holds no two questions with the same identifier. The
  identifier of a generated question is the clock and the index inside its batch, so two
  batches built in the same millisecond share their identifiers. Three hard questions
  asked for Algebra and Geometry, with AI augmentation, no keys and no matching catalog
  question: each category gets a batch of two template questions, and the three returned
  questions hold one identifier twice.
\<close>

theorem getQuestions_duplicate_ids:
  "\<not> distinct (map q_id (snd (getQuestions (offline_assembly 1730000000000) []
      \<lparr>cfg_categories = Some [Algebra, Geometry], cfg_difficulty = Some Hard,
       cfg_count = 3, cfg_useAI = Some True\<rparr>)))"
  by (simp only: offline_hard_quiz) simp


section \<open>QuestionService: the index of the correct answer\<close>

lemma in_set_enumerate_snd: "(i, x) \<in> set (enumerate n xs) \<Longrightarrow> x \<in> set xs"
  by (auto simp: in_set_enumerate_eq)

lemma generateAIQuestions_valid:
  assumes "generateAIQuestions genv c d n = Inr qs"
    "\<forall>raws. completion genv = QuestionsData raws \<longrightarrow> (\<forall>r\<in>set raws. valid_raw r)"
  shows "\<forall>q\<in>set qs. 0 \<le> aiq_correctAnswer q \<and> aiq_correctAnswer q < int (length (aiq_options q))"
  using assms getMockQuestionsForCategory_props(2)[of genv c d n]
  by (auto simp: generateAIQuestions_def generateAIQuestions_try_def valid_raw_def
      split: sum.splits if_splits completion.splits dest!: in_set_enumerate_snd)

lemma convertedQuestions_valid:
  assumes "\<forall>q\<in>set qs. 0 \<le> aiq_correctAnswer q \<and> aiq_correctAnswer q < int (length (aiq_options q))"
  shows "\<forall>q\<in>set (convertedQuestions env k qs). valid_index q"
  using assms
  by (auto simp: convertedQuestions_def valid_index_def dest!: in_set_enumerate_snd)

lemma generate_loop_valid:
  assumes "responses_valid env" "\<forall>q\<in>set pool. valid_index q" "\<forall>q\<in>set allQ. valid_index q"
  shows "(\<forall>q\<in>set (fst (generate_loop env d n k cs (pool, allQ))). valid_index q)
       \<and> (\<forall>q\<in>set (snd (generate_loop env d n k cs (pool, allQ))). valid_index q)"
  using assms
proof (induction cs arbitrary: k pool allQ)
  case Nil
  then show ?case by simp
next
  case (Cons c cs)
  obtain qs where g: "generateAIQuestions (generation env k) c d n = Inr qs"
    using generateAIQuestions_total by blast
  have "\<forall>raws. completion (generation env k) = QuestionsData raws
          \<longrightarrow> (\<forall>r\<in>set raws. valid_raw r)"
    using Cons.prems(1) by (simp add: responses_valid_def)
  from convertedQuestions_valid[OF generateAIQuestions_valid[OF g this]]
  have v: "\<forall>q\<in>set (convertedQuestions env k qs). valid_index q" .
  have "\<forall>q\<in>set (pool @ convertedQuestions env k qs). valid_index q"
       "\<forall>q\<in>set (allQ @ convertedQuestions env k qs). valid_index q"
    using v Cons.prems(2,3) by auto
  from Cons.IH[OF Cons.prems(1) this] g show ?case by simp
qed

lemma filteredQuestions_subset: "set (filteredQuestions config) \<subseteq> set mockQuestions"
  by (auto simp: filteredQuestions_def Let_def split: option.splits if_splits)

lemma matchingAIQuestions_subset: "set (matchingAIQuestions pool config) \<subseteq> set pool"
  by (auto simp: matchingAIQuestions_def)

text \<open>
  C9, as the claim states it, fails: a question parsed from a remote response keeps the
  index of the response unchecked. With keys, and a completion of one question with four
  options and the index \<open>4\<close>, the assembled list is that question.
\<close>

theorem getQuestions_unchecked_remote_index:
  "map q_correctAnswer (snd (getQuestions online_bad_assembly []
      \<lparr>cfg_categories = Some [Algebra], cfg_difficulty = Some Hard,
       cfg_count = 1, cfg_useAI = Some True\<rparr>)) = [4]
   \<and> map (length \<circ> q_options) (snd (getQuestions online_bad_assembly []
      \<lparr>cfg_categories = Some [Algebra], cfg_difficulty = Some Hard,
       cfg_count = 1, cfg_useAI = Some True\<rparr>)) = [4]
   \<and> \<not> list_all valid_index (snd (getQuestions online_bad_assembly []
      \<lparr>cfg_categories = Some [Algebra], cfg_difficulty = Some Hard,
       cfg_count = 1, cfg_useAI = Some True\<rparr>))"
  by (simp add: getQuestions_def filteredQuestions_def matchingAIQuestions_def mockQuestions_def
      has_categories_def requested_categories_def shuffleArray_def online_bad_assembly_def
      online_bad_index_def generateAIQuestions_def generateAIQuestions_try_def
      areApiKeysConfigured_def convertedQuestions_def valid_index_def)

text \<open>
  C9, amended. The catalog questions and the template questions have a correct answer
  inside their options, and nothing else is checked: when the stored generated questions
  and the questions of every parsed completion have one, so has every question that
  \<open>getQuestions\<close> returns and every question it stores.
\<close>

theorem getQuestions_valid_index:
  assumes "Math_random_contract (random1 env)" "Math_random_contract (random2 env)"
    "responses_valid env" "\<forall>q\<in>set pool. valid_index q"
  shows "(\<forall>q\<in>set (snd (getQuestions env pool config)). valid_index q)
       \<and> (\<forall>q\<in>set (fst (getQuestions env pool config)). valid_index q)"
proof -
  let ?all = "shuffleArray (random1 env)
                (filteredQuestions config @ matchingAIQuestions pool config)"
  let ?d = "case cfg_difficulty config of None \<Rightarrow> Medium | Some d \<Rightarrow> d"
  have a: "\<forall>q\<in>set ?all. valid_index q"
    using assms(1,4) mockQuestions_valid filteredQuestions_subset[of config]
      matchingAIQuestions_subset[of pool config]
    by (auto simp: shuffleArray_set)
  have l: "\<And>n k cs. (\<forall>q\<in>set (fst (generate_loop env ?d n k cs (pool, ?all))). valid_index q)
         \<and> (\<forall>q\<in>set (snd (generate_loop env ?d n k cs (pool, ?all))). valid_index q)"
    using generate_loop_valid[OF assms(3,4) a] by blast
  show ?thesis
    unfolding getQuestions_def Let_def
    using a l assms(2,4)
    by (auto simp: shuffleArray_set simp del: generate_loop.simps dest!: in_set_takeD)
qed

text \<open>
  C9, amended, on an example: two hard Algebra questions are asked for, with AI
  augmentation; the catalog holds none, one generated question is stored, and the
  completion parses to one question with a valid index. The returned list is the question
  of the completion and the stored one, and every returned and every stored question has
  a valid index.
\<close>

theorem getQuestions_valid_index_witness:
  "completion (generation online_valid_assembly 0) = QuestionsData
        [\<lparr>raw_question = ''Solve for x: 2x = 8'',
          raw_options = [''2'', ''3'', ''4'', ''8''],
          raw_correctAnswerIndex = 2,
          raw_explanation = ''Divide both sides by 2.''\<rparr>]
   \<and> areApiKeysConfigured (apiKeys (generation online_valid_assembly 0))
   \<and> stored_generated \<noteq> []
   \<and> list_all valid_index stored_generated
   \<and> map q_id (snd (getQuestions online_valid_assembly stored_generated
        \<lparr>cfg_categories = Some [Algebra], cfg_difficulty = Some Hard,
         cfg_count = 2, cfg_useAI = Some True\<rparr>))
       = [''ai_1730000000000_0'', ''ai_1720000000000_0'']
   \<and> map q_id (fst (getQuestions online_valid_assembly stored_generated
        \<lparr>cfg_categories = Some [Algebra], cfg_difficulty = Some Hard,
         cfg_count = 2, cfg_useAI = Some True\<rparr>))
       = [''ai_1720000000000_0'', ''ai_1730000000000_0'']
   \<and> list_all valid_index (snd (getQuestions online_valid_assembly stored_generated
        \<lparr>cfg_categories = Some [Algebra], cfg_difficulty = Some Hard,
         cfg_count = 2, cfg_useAI = Some True\<rparr>))
   \<and> list_all valid_index (fst (getQuestions online_valid_assembly stored_generated
        \<lparr>cfg_categories = Some [Algebra], cfg_difficulty = Some Hard,
         cfg_count = 2, cfg_useAI = Some True\<rparr>))"
proof -
  let ?config = "\<lparr>cfg_categories = Some [Algebra], cfg_difficulty = Some Hard,
                   cfg_count = 2, cfg_useAI = Some True\<rparr>"
  have r: "Math_random_contract (random1 online_valid_assembly)"
          "Math_random_contract (random2 online_valid_assembly)"
    by (simp_all add: online_valid_assembly_def Math_random_contract_def)
  have v: "responses_valid online_valid_assembly"
    by (auto simp: responses_valid_def online_valid_assembly_def online_valid_def valid_raw_def)
  have p: "\<forall>q\<in>set stored_generated. valid_index q"
    by (simp add: stored_generated_def valid_index_def)
  have c: "completion (generation online_valid_assembly 0) = QuestionsData
        [\<lparr>raw_question = ''Solve for x: 2x = 8'',
          raw_options = [''2'', ''3'', ''4'', ''8''],
          raw_correctAnswerIndex = 2,
          raw_explanation = ''Divide both sides by 2.''\<rparr>]"
    "areApiKeysConfigured (apiKeys (generation online_valid_assembly 0))"
    by (simp_all add: online_valid_assembly_def online_valid_def areApiKeysConfigured_def)
  have s: "stored_generated \<noteq> []" "list_all valid_index stored_generated"
    by (simp_all add: stored_generated_def valid_index_def)
  have g: "generateAIQuestions online_valid Algebra Hard (Suc 0)
     = Inr [\<lparr>aiq_id = ''ai_1730000000000_0'',
             aiq_question = ''Solve for x: 2x = 8'',
             aiq_options = [''2'', ''3'', ''4'', ''8''],
             aiq_correctAnswer = 2,
             aiq_explanation = ''Divide both sides by 2.'',
             aiq_category = Algebra,
             aiq_difficulty = Hard,
             aiq_createdAt = 1730000000000,
             aiq_isGenerated = True,
             aiq_source = Some ''GPT-4''\<rparr>]"
    by (simp add: generateAIQuestions_def generateAIQuestions_try_def online_valid_def
        areApiKeysConfigured_def show_digits)
  have f: "filteredQuestions ?config = []" "matchingAIQuestions stored_generated ?config = stored_generated"
    by (simp_all add: filteredQuestions_def matchingAIQuestions_def mockQuestions_def
        stored_generated_def has_categories_def requested_categories_def)
  obtain s where sg: "stored_generated = [s]"
    by (simp add: stored_generated_def)
  have sid: "q_id s = ''ai_1720000000000_0''"
    using sg by (auto simp: stored_generated_def)
  have m: "matchingAIQuestions [s] ?config = [s]"
    using f(2) by (simp only: sg)
  have i: "map q_id (snd (getQuestions online_valid_assembly stored_generated ?config))
             = [''ai_1730000000000_0'', ''ai_1720000000000_0'']"
          "map q_id (fst (getQuestions online_valid_assembly stored_generated ?config))
             = [''ai_1720000000000_0'', ''ai_1730000000000_0'']"
    unfolding sg
    by (simp_all add: getQuestions_def f(1) m has_categories_def requested_categories_def
        online_valid_assembly_def g convertedQuestions_def shuffleArray_def sid)
  from getQuestions_valid_index[OF r v p, of ?config]
  have "list_all valid_index (snd (getQuestions online_valid_assembly stored_generated ?config))"
       "list_all valid_index (fst (getQuestions online_valid_assembly stored_generated ?config))"
    by (simp_all add: list_all_iff)
  with c s i show ?thesis by (simp only: simp_thms)
qed


section \<open>QuizScreen: what holds while the quiz is shown\<close>

lemmas screen_defs = start_def rerender_def loadQuestions_def mount_def questionEffect_def
  dispatch_def handleSelectAnswer_def handleSubmitAnswer_def handleNextQuestion_def
  handleSkipQuestion_def apply_handler_def finishQuiz_def finished_results_def js_div_def Let_def

lemma start_inv: "screen_inv (state (start p qs t0 t1))"
  by (simp add: start_def rerender_def loadQuestions_def mount_def questionEffect_def
      screen_inv_def tally_sum_def Let_def)

lemma start_fields:
  "questions (state (start p qs t0 t1)) = qs" "navigated (start p qs t0 t1) = None"
  "progressUpdates (start p qs t0 t1) = []" "params (state (start p qs t0 t1)) = p"
  by (simp_all add: start_def rerender_def loadQuestions_def mount_def questionEffect_def Let_def)

lemma dispatch_Some_on_quiz: "dispatch ev scr = Some scr' \<Longrightarrow> navigated scr = None"
  by (auto simp: dispatch_def Let_def split: if_splits)

text \<open>An event that leaves the quiz on the screen keeps the invariant.\<close>

lemma dispatch_inv:
  assumes "dispatch ev scr = Some scr'" "screen_inv (state scr)" "navigated scr' = None"
  shows "screen_inv (state scr') \<and> questions (state scr') = questions (state scr)
         \<and> params (state scr') = params (state scr) \<and> progressUpdates scr' = progressUpdates scr"
  using assms
  by (auto simp: dispatch_def Let_def screen_inv_def tally_sum_def handleSelectAnswer_def
      handleSubmitAnswer_def handleNextQuestion_def handleSkipQuestion_def apply_handler_def
      rerender_def questionEffect_def
      split: if_splits event.splits option.splits sum.splits)

text \<open>Once the navigator has left the quiz, no control is left.\<close>

lemma run_after_navigation:
  "navigated scr \<noteq> None \<Longrightarrow> run evs scr = Some scr' \<Longrightarrow> evs = [] \<and> scr' = scr"
  by (cases evs) (auto simp: dispatch_def Let_def split: option.splits)

lemma run_inv:
  "run evs scr = Some scr' \<Longrightarrow> screen_inv (state scr) \<Longrightarrow> navigated scr' = None \<Longrightarrow>
     screen_inv (state scr') \<and> questions (state scr') = questions (state scr)
     \<and> params (state scr') = params (state scr) \<and> progressUpdates scr' = progressUpdates scr"
proof (induction evs arbitrary: scr)
  case Nil
  then show ?case by simp
next
  case (Cons ev evs)
  from Cons.prems(1) obtain scr1
    where d: "dispatch ev scr = Some scr1" and r: "run evs scr1 = Some scr'"
    by (auto split: option.splits)
  have n: "navigated scr1 = None"
  proof (rule ccontr)
    assume "navigated scr1 \<noteq> None"
    with r have "scr' = scr1" using run_after_navigation by blast
    with Cons.prems(3) \<open>navigated scr1 \<noteq> None\<close> show False by simp
  qed
  from dispatch_inv[OF d Cons.prems(2) n] Cons.IH[OF r _ Cons.prems(3)]
  show ?case by simp
qed

lemma run_snoc:
  "run (evs @ [ev]) scr = (case run evs scr of None \<Rightarrow> None | Some scr' \<Rightarrow> dispatch ev scr')"
  by (induction evs arbitrary: scr) (auto split: option.splits)

lemma reachable_inv:
  assumes "run evs (start p qs t0 t1) = Some scr" "navigated scr = None"
  shows "screen_inv (state scr)" and "questions (state scr) = qs"
    and "progressUpdates scr = []"
  using run_inv[OF assms(1) start_inv assms(2)] by (simp_all add: start_fields)

lemma finishQuiz_results:
  "res_correct (res_results (navigate_Results (finishQuiz now s))) = correct (results s)"
  "res_incorrect (res_results (navigate_Results (finishQuiz now s))) = incorrect (results s)"
  "res_skipped (res_results (navigate_Results (finishQuiz now s))) = skipped (results s)"
  "res_totalQuestions (res_results (navigate_Results (finishQuiz now s))) = length (questions s)"
  "averageTimePerQuestion (res_results (navigate_Results (finishQuiz now s))) =
     js_div (foldl (\<lambda>a b. a + b) 0 (timePerQuestion s)) (real (length (timePerQuestion s)))"
  by (simp_all add: finishQuiz_def Let_def)


section \<open>QuizScreen: the tallies of a finished session\<close>

text \<open>Finish Quiz (Next on the last question) reads the state of its own render.\<close>

lemma next_finish:
  assumes "dispatch (PressNext now) scr = Some scr'" "screen_inv (state scr)"
    "navigated scr' = Some (Results r)"
  shows "r = navigate_Results (finishQuiz now (state scr))"
    and "state scr' = state scr"
    and "tally_sum (results (state scr)) = length (questions (state scr))"
    and "length (timePerQuestion (state scr)) + 1
           = length (questions (state scr)) + skipped (results (state scr))"
    and "skipped (results (state scr)) + 1 \<le> length (questions (state scr))"
  using assms
  by (auto simp: dispatch_def Let_def screen_inv_def tally_sum_def handleNextQuestion_def
      apply_handler_def rerender_def split: if_splits option.splits)

text \<open>Skip on the last question reads the state from before the skip.\<close>

lemma skip_finish:
  assumes "dispatch (PressSkip now now') scr = Some scr'" "screen_inv (state scr)"
    "navigated scr' = Some (Results r)"
  shows "r = navigate_Results (finishQuiz now' (state scr))"
    and "tally_sum (results (state scr)) + 1 = length (questions (state scr))"
    and "skipped (results (state scr')) = skipped (results (state scr)) + 1"
  using assms
  by (auto simp: dispatch_def Let_def screen_inv_def tally_sum_def handleSkipQuestion_def
      apply_handler_def rerender_def split: if_splits option.splits)

text \<open>
  The path on which C1 holds: in a session finished by Next after answering the last
  question, the three tallies of the result sum to the number of questions.
\<close>

lemma session_finished_by_next:
  assumes "run evs (start p qs t0 t1) = Some scr" "dispatch (PressNext now) scr = Some scr'"
    "navigated scr' = Some (Results r)"
  shows "res_correct (res_results r) + res_incorrect (res_results r) + res_skipped (res_results r)
           = res_totalQuestions (res_results r)"
    and "res_totalQuestions (res_results r) = length qs"
proof -
  have n: "navigated scr = None" using assms(2) by (rule dispatch_Some_on_quiz)
  note i = reachable_inv(1)[OF assms(1) n] and q = reachable_inv(2)[OF assms(1) n]
  from next_finish[OF assms(2) i assms(3)] q
  show "res_correct (res_results r) + res_incorrect (res_results r) + res_skipped (res_results r)
           = res_totalQuestions (res_results r)"
    and "res_totalQuestions (res_results r) = length qs"
    by (simp_all add: finishQuiz_results tally_sum_def)
qed

text \<open>
  The path on which C1 fails: in every session finished by skipping the last question,
  the three tallies of the result sum to one less than the number of questions.
\<close>

lemma session_finished_by_skip:
  assumes "run evs (start p qs t0 t1) = Some scr" "dispatch (PressSkip now now') scr = Some scr'"
    "navigated scr' = Some (Results r)"
  shows "res_correct (res_results r) + res_incorrect (res_results r) + res_skipped (res_results r) + 1
           = res_totalQuestions (res_results r)"
    and "res_totalQuestions (res_results r) = length qs"
proof -
  have n: "navigated scr = None" using assms(2) by (rule dispatch_Some_on_quiz)
  note i = reachable_inv(1)[OF assms(1) n] and q = reachable_inv(2)[OF assms(1) n]
  from skip_finish[OF assms(2) i assms(3)] q
  show "res_correct (res_results r) + res_incorrect (res_results r) + res_skipped (res_results r) + 1
           = res_totalQuestions (res_results r)"
    and "res_totalQuestions (res_results r) = length qs"
    by (simp_all add: finishQuiz_results tally_sum_def)
qed

text \<open>
  C1. The claim: the tallies of every completed session sum to the number of questions.
  A quiz of the one Algebra question of medium difficulty of the catalog, which the user
  skips: \<open>handleSkipQuestion\<close> queues the count of the skip and calls \<open>finishQuiz\<close>, which
  still reads the tallies of the render, and the result reports no correct, no incorrect
  and no skipped question of one question in total.
\<close>

theorem skip_last_question_not_counted:
  "Option.bind
     (run [PressSkip 1730000012000 1730000012001]
        (start algebra_quiz [mockQuestions ! 1] 1730000000000 1730000000001))
     finished_results
   = Some \<lparr>res_correct = 0, res_incorrect = 0, res_skipped = 0, res_totalQuestions = 1,
            res_timeSpent = 12001 / 1000, averageTimePerQuestion = NaN\<rparr>"
  by (simp add: screen_defs)


section \<open>QuizScreen: quitting\<close>

lemma template_options:
  "i < n \<Longrightarrow>
     q_options (convertedQuestions env k (getMockQuestionsForCategory genv c d n) ! i)
       = [''Option A'', ''Option B'', ''Option C'', ''Option D'']"
  by (simp add: convertedQuestions_def getMockQuestionsForCategory_def nth_enumerate_eq)

lemma template_length:
  "length (convertedQuestions env k (getMockQuestionsForCategory genv c d n)) = n"
  by (simp add: convertedQuestions_def getMockQuestionsForCategory_def)

lemma three_answered_then_quit:
  assumes "length qs = 10" "q_options (qs ! 0) \<noteq> []" "q_options (qs ! 1) \<noteq> []"
    "q_options (qs ! 2) \<noteq> []"
  shows "map_option navigated
           (run [PressOption 0, PressSubmit, PressNext a, PressOption 0, PressSubmit, PressNext b,
                 PressOption 0, PressSubmit, PressNext c, ConfirmQuit] (start p qs t0 t1))
         = Some (Some Back)"
    and "map_option progressUpdates
           (run [PressOption 0, PressSubmit, PressNext a, PressOption 0, PressSubmit, PressNext b,
                 PressOption 0, PressSubmit, PressNext c, ConfirmQuit] (start p qs t0 t1))
         = Some []"
    and "map_option (tally_sum \<circ> results \<circ> state)
           (run [PressOption 0, PressSubmit, PressNext a, PressOption 0, PressSubmit, PressNext b,
                 PressOption 0, PressSubmit, PressNext c, ConfirmQuit] (start p qs t0 t1))
         = Some 3"
    and "Option.bind
           (run [PressOption 0, PressSubmit, PressNext a, PressOption 0, PressSubmit, PressNext b,
                 PressOption 0, PressSubmit, PressNext c, ConfirmQuit] (start p qs t0 t1))
           finished_results = None"
  using assms by (auto simp: screen_defs tally_sum_def numeral_2_eq_2)

text \<open>
  C5, as the claim states it, fails: quitting materializes no result. A quiz of ten
  template questions, three answered, then Quit: the navigator goes back, no result is
  passed to the Results screen and \<open>updateProgress\<close> is never called; the three recorded
  answers stay in the state of the screen that is left.
\<close>

theorem quit_after_three_answers_no_result:
  "map_option navigated
     (run [PressOption 0, PressSubmit, PressNext 1730000010000,
           PressOption 0, PressSubmit, PressNext 1730000020000,
           PressOption 0, PressSubmit, PressNext 1730000030000, ConfirmQuit]
        (start algebra_quiz
           (convertedQuestions (offline_assembly 1730000000000) 0
              (getMockQuestionsForCategory (offline 1730000000000) Algebra Medium 10))
           1730000000000 1730000000001))
   = Some (Some Back)
   \<and> Option.bind
     (run [PressOption 0, PressSubmit, PressNext 1730000010000,
           PressOption 0, PressSubmit, PressNext 1730000020000,
           PressOption 0, PressSubmit, PressNext 1730000030000, ConfirmQuit]
        (start algebra_quiz
           (convertedQuestions (offline_assembly 1730000000000) 0
              (getMockQuestionsForCategory (offline 1730000000000) Algebra Medium 10))
           1730000000000 1730000000001))
     finished_results = None
   \<and> map_option progressUpdates
     (run [PressOption 0, PressSubmit, PressNext 1730000010000,
           PressOption 0, PressSubmit, PressNext 1730000020000,
           PressOption 0, PressSubmit, PressNext 1730000030000, ConfirmQuit]
        (start algebra_quiz
           (convertedQuestions (offline_assembly 1730000000000) 0
              (getMockQuestionsForCategory (offline 1730000000000) Algebra Medium 10))
           1730000000000 1730000000001))
   = Some []"
proof -
  let ?qs = "convertedQuestions (offline_assembly 1730000000000) 0
               (getMockQuestionsForCategory (offline 1730000000000) Algebra Medium 10)"
  have l: "length ?qs = 10" by (rule template_length)
  have o: "q_options (?qs ! 0) \<noteq> []" "q_options (?qs ! 1) \<noteq> []" "q_options (?qs ! 2) \<noteq> []"
    by (simp_all add: template_options)
  show ?thesis by (simp only: three_answered_then_quit[OF l o] simp_thms)
qed

text \<open>
  C5, amended. Quit is offered in every state in which the quiz is shown; it navigates
  back and discards the session: no result is materialized, \<open>updateProgress\<close> has not been
  called, and the component state is left as it is.
\<close>

theorem quit_discards_session:
  assumes "run evs (start p qs t0 t1) = Some scr" "navigated scr = None" "qs \<noteq> []"
  shows "dispatch ConfirmQuit scr = Some (scr\<lparr>navigated := Some Back\<rparr>)
       \<and> finished_results (scr\<lparr>navigated := Some Back\<rparr>) = None
       \<and> progressUpdates scr = []"
proof -
  note i = reachable_inv[OF assms(1,2)]
  from i(1,2) assms(3) have "currentQuestionIndex (state scr) < length (questions (state scr))"
    and "\<not> isLoading (state scr)" and "questions (state scr) \<noteq> []"
    by (auto simp: screen_inv_def)
  with assms(2) i(3) show ?thesis
    by (simp add: dispatch_def finished_results_def)
qed

text \<open>
  C5, amended, on an example: a quiz of the first two catalog questions, the first one
  skipped, then Quit.
\<close>

theorem quit_discards_session_witness:
  "run [PressSkip 1730000005000 1730000005001]
     (start algebra_quiz (take 2 mockQuestions) 1730000000000 1730000000001) \<noteq> None
   \<and> map_option navigated
       (Option.bind
          (run [PressSkip 1730000005000 1730000005001]
             (start algebra_quiz (take 2 mockQuestions) 1730000000000 1730000000001))
          (dispatch ConfirmQuit)) = Some (Some Back)
   \<and> Option.bind
       (Option.bind
          (run [PressSkip 1730000005000 1730000005001]
             (start algebra_quiz (take 2 mockQuestions) 1730000000000 1730000000001))
          (dispatch ConfirmQuit))
       finished_results = None"
proof -
  let ?s0 = "start algebra_quiz (take 2 mockQuestions) 1730000000000 1730000000001"
  have "\<exists>scr. run [PressSkip 1730000005000 1730000005001] ?s0 = Some scr \<and> navigated scr = None"
    by (simp add: screen_defs mockQuestions_def)
  then obtain scr where r: "run [PressSkip 1730000005000 1730000005001] ?s0 = Some scr"
    and n: "navigated scr = None" by blast
  have q: "take 2 mockQuestions \<noteq> []" by (simp add: mockQuestions_def)
  from quit_discards_session[OF r n q] r show ?thesis by simp
qed


section \<open>QuizScreen: submitting\<close>

text \<open>
  C6, as the claim states it, fails: \<open>handleSubmitAnswer\<close> has no guard against a second
  call and raises nothing. Called twice on the one-question Algebra quiz with the right
  option selected, it counts the answer twice.
\<close>

theorem handleSubmitAnswer_twice_counts_twice:
  "map_sum id results
     (handleSubmitAnswer
        (handleSelectAnswer 0
           (state (start algebra_quiz [mockQuestions ! 1] 1730000000000 1730000000001))))
   = Inr \<lparr>correct = 1, incorrect = 0, skipped = 0\<rparr>
   \<and> map_sum id results
     (case handleSubmitAnswer
             (handleSelectAnswer 0
                (state (start algebra_quiz [mockQuestions ! 1] 1730000000000 1730000000001))) of
        Inl error \<Rightarrow> Inl error
      | Inr s \<Rightarrow> handleSubmitAnswer s)
   = Inr \<lparr>correct = 2, incorrect = 0, skipped = 0\<rparr>"
  by (simp add: screen_defs mockQuestions_def)

text \<open>
  C6, amended. Submit is offered only while the current question is unsubmitted. Once it
  is pressed the answer is counted once, and until the next question the screen offers
  neither Submit nor Skip nor an option: the tallies cannot change again for this
  question. No error is raised anywhere.
\<close>

theorem submit_offered_once:
  assumes "dispatch PressSubmit scr = Some scr'"
  shows "isAnswerSubmitted (state scr')
       \<and> correct (results (state scr')) + incorrect (results (state scr'))
           = correct (results (state scr)) + incorrect (results (state scr)) + 1
       \<and> skipped (results (state scr')) = skipped (results (state scr))
       \<and> dispatch PressSubmit scr' = None
       \<and> dispatch (PressSkip a b) scr' = None
       \<and> dispatch (PressOption i) scr' = None"
  using assms
  by (auto simp: dispatch_def handleSubmitAnswer_def Let_def split: if_splits option.splits)

text \<open>
  C6, amended, on an example: the one-question Algebra quiz, the right option selected
  and submitted; a second Submit is not offered and the tallies are one correct answer.
\<close>

theorem submit_offered_once_witness:
  "Option.bind
     (dispatch (PressOption 0)
        (start algebra_quiz [mockQuestions ! 1] 1730000000000 1730000000001))
     (dispatch PressSubmit) \<noteq> None
   \<and> Option.bind
       (Option.bind
          (dispatch (PressOption 0)
             (start algebra_quiz [mockQuestions ! 1] 1730000000000 1730000000001))
          (dispatch PressSubmit))
       (dispatch PressSubmit) = None
   \<and> map_option (results \<circ> state)
       (Option.bind
          (dispatch (PressOption 0)
             (start algebra_quiz [mockQuestions ! 1] 1730000000000 1730000000001))
          (dispatch PressSubmit))
     = Some \<lparr>correct = 1, incorrect = 0, skipped = 0\<rparr>"
proof -
  let ?s0 = "start algebra_quiz [mockQuestions ! 1] 1730000000000 1730000000001"
  have "\<exists>scr scr'. dispatch (PressOption 0) ?s0 = Some scr \<and> dispatch PressSubmit scr = Some scr'
          \<and> results (state scr') = \<lparr>correct = 1, incorrect = 0, skipped = 0\<rparr>"
    by (simp add: screen_defs mockQuestions_def)
  then obtain scr scr' where o: "dispatch (PressOption 0) ?s0 = Some scr"
    and s: "dispatch PressSubmit scr = Some scr'"
    and t: "results (state scr') = \<lparr>correct = 1, incorrect = 0, skipped = 0\<rparr>" by blast
  from submit_offered_once[OF s] have "dispatch PressSubmit scr' = None" by simp
  with o s t show ?thesis by simp
qed


section \<open>QuizScreen: the recorded times\<close>

lemma skip_then_answer_times:
  assumes "length qs = 2" "q_options (qs ! 1) \<noteq> []"
  shows "map_option (length \<circ> timePerQuestion \<circ> state)
           (run [PressSkip a a', PressOption 0, PressSubmit, PressNext b] (start p qs t0 t1))
         = Some 2"
    and "map_option res_totalQuestions
           (Option.bind
              (run [PressSkip a a', PressOption 0, PressSubmit, PressNext b] (start p qs t0 t1))
              finished_results)
         = Some 2"
  using assms by (auto simp: screen_defs)

text \<open>
  The number of recorded times when a session is finished by Next: one per question but
  the last, and one more per skipped question (\<open>handleSkipQuestion\<close> and the effect each
  append one for a skipped question).
\<close>

lemma finished_by_next_time_entries:
  assumes "run evs (start p qs t0 t1) = Some scr" "dispatch (PressNext now) scr = Some scr'"
    "navigated scr' = Some (Results r)"
  shows "length (timePerQuestion (state scr')) + 1
           = res_totalQuestions (res_results r) + res_skipped (res_results r)"
    and "res_skipped (res_results r) + 1 \<le> res_totalQuestions (res_results r)"
    and "averageTimePerQuestion (res_results r) =
           js_div (foldl (\<lambda>a b. a + b) 0 (timePerQuestion (state scr')))
                  (real (length (timePerQuestion (state scr'))))"
proof -
  have n: "navigated scr = None" using assms(2) by (rule dispatch_Some_on_quiz)
  note i = reachable_inv(1)[OF assms(1) n]
  note f = next_finish[OF assms(2) i assms(3)]
  from f show "length (timePerQuestion (state scr')) + 1
           = res_totalQuestions (res_results r) + res_skipped (res_results r)"
    by (simp add: finishQuiz_results)
  from f show "res_skipped (res_results r) + 1 \<le> res_totalQuestions (res_results r)"
    by (simp add: finishQuiz_results)
  from f show "averageTimePerQuestion (res_results r) =
           js_div (foldl (\<lambda>a b. a + b) 0 (timePerQuestion (state scr')))
                  (real (length (timePerQuestion (state scr'))))"
    by (simp add: finishQuiz_results)
qed

text \<open>
  C10, as the claim states it, fails: a skipped question leaves two entries in the list of
  times. A quiz of the first two catalog questions, the first skipped, the second
  answered and finished: the list has two entries for two questions, not fewer.
\<close>

theorem skip_then_answer_two_time_entries:
  "map_option (length \<circ> timePerQuestion \<circ> state)
     (run [PressSkip 1730000005000 1730000005001, PressOption 0, PressSubmit,
           PressNext 1730000010000]
        (start algebra_quiz (take 2 mockQuestions) 1730000000000 1730000000001))
   = Some 2
   \<and> map_option res_totalQuestions
     (Option.bind
        (run [PressSkip 1730000005000 1730000005001, PressOption 0, PressSubmit,
              PressNext 1730000010000]
           (start algebra_quiz (take 2 mockQuestions) 1730000000000 1730000000001))
        finished_results)
   = Some 2"
proof -
  have l: "length (take 2 mockQuestions) = 2"
    and o: "q_options (take 2 mockQuestions ! 1) \<noteq> []"
    by (simp_all add: mockQuestions_def)
  show ?thesis by (simp only: skip_then_answer_times[OF l o] simp_thms)
qed

text \<open>
  C10, amended. In a session that ends by answering its final question and in which no
  question was skipped, the list of times has one entry less than there are questions:
  the time of the last question is never appended. In a one-question session ended by
  answering, the list is empty and the average is \<open>0 / 0\<close>, which is \<open>NaN\<close>.
\<close>

theorem answered_session_time_entries:
  assumes "run evs (start p qs t0 t1) = Some scr" "dispatch (PressNext now) scr = Some scr'"
    "navigated scr' = Some (Results r)"
  shows "(res_skipped (res_results r) = 0 \<longrightarrow>
            length (timePerQuestion (state scr')) + 1 = res_totalQuestions (res_results r)
            \<and> length (timePerQuestion (state scr')) < res_totalQuestions (res_results r))
       \<and> (res_totalQuestions (res_results r) = 1 \<longrightarrow>
            timePerQuestion (state scr') = []
            \<and> averageTimePerQuestion (res_results r) = NaN)"
proof -
  note f = finished_by_next_time_entries[OF assms]
  have "res_totalQuestions (res_results r) = 1 \<Longrightarrow> timePerQuestion (state scr') = []"
    using f(1,2) by simp
  then show ?thesis using f by (auto simp: js_div_def)
qed

text \<open>
  C10, amended, on an example: the one-question Algebra quiz, answered and finished; no
  time is recorded and the average is \<open>NaN\<close>.
\<close>

theorem answered_session_time_entries_witness:
  "map_option averageTimePerQuestion
     (Option.bind
        (run ([PressOption 0, PressSubmit] @ [PressNext 1730000010000])
           (start algebra_quiz [mockQuestions ! 1] 1730000000000 1730000000001))
        finished_results)
   = Some NaN
   \<and> map_option (timePerQuestion \<circ> state)
     (run ([PressOption 0, PressSubmit] @ [PressNext 1730000010000])
        (start algebra_quiz [mockQuestions ! 1] 1730000000000 1730000000001))
   = Some []"
proof -
  let ?s0 = "start algebra_quiz [mockQuestions ! 1] 1730000000000 1730000000001"
  have "\<exists>scr scr' r. run [PressOption 0, PressSubmit] ?s0 = Some scr
          \<and> dispatch (PressNext 1730000010000) scr = Some scr'
          \<and> navigated scr' = Some (Results r) \<and> res_totalQuestions (res_results r) = 1"
    by (simp add: screen_defs mockQuestions_def)
  then obtain scr scr' r where a: "run [PressOption 0, PressSubmit] ?s0 = Some scr"
    and b: "dispatch (PressNext 1730000010000) scr = Some scr'"
    and c: "navigated scr' = Some (Results r)"
    and d: "res_totalQuestions (res_results r) = 1" by blast
  from answered_session_time_entries[OF a b c] d
  have "timePerQuestion (state scr') = []" "averageTimePerQuestion (res_results r) = NaN"
    by simp_all
  moreover have "run ([PressOption 0, PressSubmit] @ [PressNext 1730000010000]) ?s0 = Some scr'"
    using a b by (simp only: run_snoc) simp
  ultimately show ?thesis using c by (simp add: finished_results_def)
qed

end
